theory Spec2Isabelle
  imports Main
begin

section \<open>JavaScript numbers\<close>

text \<open>
  The plugin passes every amount through JavaScript's \<^verbatim>\<open>Number\<close> type: the
  transfer routines evaluate \<^verbatim>\<open>parseBTC(Number(amount)).toFixed()\<close>. A
  \<^verbatim>\<open>Number\<close> is an IEEE 754 binary64 value. A finite one is kept as its sign,
  its significand \<open>m\<close> and its exponent \<open>e\<close>, standing for \<open>m * 2 ^ e\<close>, in the
  encoding's own normal form: \<open>m < 2 ^ 53\<close>, \<open>- 1074 \<le> e \<le> 971\<close>, and \<open>e = - 1074\<close>
  whenever \<open>m < 2 ^ 52\<close> (zero and the subnormal numbers). Every function below
  that produces a number produces it in this form, so two numbers are the same
  value exactly when they are the same term (up to the sign of zero).
\<close>

datatype jsnum = NaN | Infinity bool | Finite bool int int

text \<open>The number of binary digits of a positive integer.\<close>

fun bitlen :: "int \<Rightarrow> nat" where
  "bitlen n = (if n \<le> 0 then 0 else Suc (bitlen (n div 2)))"

declare bitlen.simps [simp del]

text \<open>The quotient \<open>n / d\<close> rounded to the nearest integer, a tie going to the even one.\<close>

definition round_half_even :: "int \<Rightarrow> int \<Rightarrow> int" where
  "round_half_even n d =
     (let q = n div d; r = n mod d
      in if 2 * r < d then q else if d < 2 * r then q + 1 else if even q then q else q + 1)"

text \<open>The integer part of the binary logarithm of \<open>n / d\<close>, for positive \<open>n\<close> and \<open>d\<close>.\<close>

definition floor_log2 :: "int \<Rightarrow> int \<Rightarrow> int" where
  "floor_log2 n d =
     (let k = int (bitlen n) - int (bitlen d)
      in if d * 2 ^ nat k \<le> n * 2 ^ nat (- k) then k else k - 1)"

text \<open>
  Round-to-nearest, ties-to-even, of the non-negative rational \<open>n / d\<close> with the sign
  \<open>neg\<close>: the conversion every JavaScript engine applies when a decimal literal or a
  numeric string becomes a \<^verbatim>\<open>Number\<close>. A result beyond the largest finite
  double is an infinity.
\<close>

definition round_to_double :: "bool \<Rightarrow> int \<Rightarrow> int \<Rightarrow> jsnum" where
  "round_to_double neg n d =
     (if n = 0 then Finite neg 0 (- 1074)
      else
        let e = floor_log2 n d;
            q = max (e - 52) (- 1074);
            m = round_half_even (n * 2 ^ nat (- q)) (d * 2 ^ nat q);
            m' = (if m = 2 ^ 53 then 2 ^ 52 else m);
            q' = (if m = 2 ^ 53 then q + 1 else q)
        in if 971 < q' then Infinity neg else Finite neg m' q')"

text \<open>The double nearest to the decimal \<open>c * 10 ^ e10\<close>.\<close>

definition double_of_decimal :: "bool \<Rightarrow> int \<Rightarrow> int \<Rightarrow> jsnum" where
  "double_of_decimal neg c e10 = round_to_double neg (c * 10 ^ nat e10) (10 ^ nat (- e10))"

subsection \<open>Number to string\<close>

text \<open>The number of decimal digits of a non-negative integer.\<close>

fun ndigits :: "int \<Rightarrow> nat" where
  "ndigits n = (if n < 10 then 1 else Suc (ndigits (n div 10)))"

declare ndigits.simps [simp del]

text \<open>The \<open>n\<close> with \<open>10 ^ (n - 1) \<le> N / D < 10 ^ n\<close>, for positive \<open>N\<close> and \<open>D\<close>.\<close>

definition decade :: "int \<Rightarrow> int \<Rightarrow> int" where
  "decade N D =
     (if D \<le> N then int (ndigits (N div D))
      else 1 - int (ndigits ((D + N - 1) div N - 1)))"

text \<open>
  \<^verbatim>\<open>Number::toString\<close> (ECMA-262) prints the shortest decimal that converts back
  to the same double: integers \<open>s\<close>, \<open>n\<close> and \<open>k\<close> with \<open>k\<close> as small as possible,
  \<open>s\<close> of \<open>k\<close> digits, and \<open>s * 10 ^ (n - k)\<close> rounding to the number; among several
  \<open>s\<close> the one nearest to the number. \<open>candidate m e k\<close> looks for such a decimal of
  \<open>k\<close> digits for the double \<open>m * 2 ^ e\<close>: only the two decimals of \<open>k\<close> digits that
  enclose the number can be nearest to it. Seventeen digits always suffice.
\<close>

definition candidate :: "int \<Rightarrow> int \<Rightarrow> nat \<Rightarrow> (int \<times> int) option" where
  "candidate m e k =
     (let N = m * 2 ^ nat e; D = 2 ^ nat (- e);
          n0 = decade N D;
          A = N * 10 ^ nat (int k - n0); B = D * 10 ^ nat (n0 - int k);
          lo = A div B; r = A mod B; hi = lo + 1;
          lo_ok = (double_of_decimal False lo (n0 - int k) = Finite False m e);
          hi_ok = (double_of_decimal False hi (n0 - int k) = Finite False m e);
          pick_lo = (2 * r < B \<or> (2 * r = B \<and> even lo));
          s = (if lo_ok \<and> (\<not> hi_ok \<or> pick_lo) then lo else hi)
      in if lo_ok \<or> hi_ok \<or> 17 \<le> k
         then Some (if s = 10 ^ k then (1, n0 + 1) else (s, n0))
         else None)"

text \<open>The digits \<open>s\<close> and the position \<open>n\<close> of the decimal point of the shortest decimal.\<close>

definition shortest_digits :: "int \<Rightarrow> int \<Rightarrow> int \<times> int" where
  "shortest_digits m e =
     (case List.find (\<lambda>k. candidate m e k \<noteq> None) [1..<18] of
        Some k \<Rightarrow> (case candidate m e k of Some sn \<Rightarrow> sn | None \<Rightarrow> (0, 0))
      | None \<Rightarrow> (0, 0))"

definition digit_char :: "int \<Rightarrow> char" where
  "digit_char d = ''0123456789'' ! nat d"

fun digits_of :: "int \<Rightarrow> string" where
  "digits_of n =
     (if n < 10 then [digit_char n] else digits_of (n div 10) @ [digit_char (n mod 10)])"

declare digits_of.simps [simp del]

definition exponent_string :: "int \<Rightarrow> string" where
  "exponent_string x = (if x < 0 then ''-'' @ digits_of (- x) else ''+'' @ digits_of x)"

text \<open>\<^verbatim>\<open>Number::toString(x)\<close> with radix 10, which is also \<^verbatim>\<open>String(x)\<close>.\<close>

definition Number_toString :: "jsnum \<Rightarrow> string" where
  "Number_toString x =
     (case x of
        NaN \<Rightarrow> ''NaN''
      | Infinity neg \<Rightarrow> (if neg then ''-Infinity'' else ''Infinity'')
      | Finite neg m e \<Rightarrow>
          if m = 0 then ''0''
          else
            let (s, n) = shortest_digits m e;
                ds = digits_of s;
                k = int (length ds);
                body =
                  (if k \<le> n \<and> n \<le> 21 then ds @ replicate (nat (n - k)) CHR ''0''
                   else if 0 < n \<and> n \<le> 21 then take (nat n) ds @ ''.'' @ drop (nat n) ds
                   else if - 6 < n \<and> n \<le> 0 then ''0.'' @ replicate (nat (- n)) CHR ''0'' @ ds
                   else if k = 1 then ds @ ''e'' @ exponent_string (n - 1)
                   else take 1 ds @ ''.'' @ drop 1 ds @ ''e'' @ exponent_string (n - 1))
            in (if neg then ''-'' else []) @ body)"

text \<open>
  \<^verbatim>\<open>Number.prototype.toFixed()\<close> with no argument (zero fraction digits): a number
  that is not finite, or of magnitude \<open>10 ^ 21\<close> or more, is printed as
  \<^verbatim>\<open>toString\<close> prints it; any other one is rounded to the nearest integer (a
  half goes up in magnitude) and printed in full.
\<close>

definition Number_toFixed :: "jsnum \<Rightarrow> string" where
  "Number_toFixed x =
     (case x of
        Finite neg m e \<Rightarrow>
          (if 10 ^ 21 * 2 ^ nat (- e) \<le> m * 2 ^ nat e then
             (if neg then ''-'' else []) @ Number_toString (Finite False m e)
           else
             (if neg \<and> m \<noteq> 0 then ''-'' else []) @
             digits_of ((2 * m * 2 ^ nat e + 2 ^ nat (- e)) div (2 * 2 ^ nat (- e))))
      | _ \<Rightarrow> Number_toString x)"

subsection \<open>String to number\<close>

text \<open>
  \<^verbatim>\<open>Number(str)\<close> (ECMA-262, StringToNumber): white space is trimmed, the empty
  string is zero, and the rest must be a signed decimal literal (with an optional
  fraction and exponent), \<^verbatim>\<open>Infinity\<close>, or an unsigned binary, octal or
  hexadecimal integer; anything else is \<^verbatim>\<open>NaN\<close>. Only ASCII white space is
  recognised here.
\<close>

definition char_value :: "char \<Rightarrow> int option" where
  "char_value c =
     map_of
       [(CHR ''0'', 0), (CHR ''1'', 1), (CHR ''2'', 2), (CHR ''3'', 3), (CHR ''4'', 4),
        (CHR ''5'', 5), (CHR ''6'', 6), (CHR ''7'', 7), (CHR ''8'', 8), (CHR ''9'', 9),
        (CHR ''a'', 10), (CHR ''b'', 11), (CHR ''c'', 12), (CHR ''d'', 13), (CHR ''e'', 14),
        (CHR ''f'', 15), (CHR ''A'', 10), (CHR ''B'', 11), (CHR ''C'', 12), (CHR ''D'', 13),
        (CHR ''E'', 14), (CHR ''F'', 15)] c"

definition is_digit_in :: "int \<Rightarrow> char \<Rightarrow> bool" where
  "is_digit_in radix c = (case char_value c of Some v \<Rightarrow> v < radix | None \<Rightarrow> False)"

definition number_in :: "int \<Rightarrow> string \<Rightarrow> int" where
  "number_in radix ds =
     foldl (\<lambda>a c. a * radix + (case char_value c of Some v \<Rightarrow> v | None \<Rightarrow> 0)) 0 ds"

definition is_whitespace :: "char \<Rightarrow> bool" where
  "is_whitespace c = (c \<in> set [CHR 0x09, CHR 0x0A, CHR 0x0B, CHR 0x0C, CHR 0x0D, CHR '' ''])"

definition trim :: "string \<Rightarrow> string" where
  "trim s = rev (dropWhile is_whitespace (rev (dropWhile is_whitespace s)))"

text \<open>The exponent part that may follow the digits: nothing, or \<^verbatim>\<open>e\<close>, a sign and digits.\<close>

definition parse_exponent :: "string \<Rightarrow> int option" where
  "parse_exponent r =
     (case r of
        [] \<Rightarrow> Some 0
      | c # r1 \<Rightarrow>
          if c = CHR ''e'' \<or> c = CHR ''E'' then
            (let neg = (r1 \<noteq> [] \<and> hd r1 = CHR ''-'');
                 ds = (if r1 \<noteq> [] \<and> (hd r1 = CHR ''-'' \<or> hd r1 = CHR ''+'') then tl r1 else r1)
             in if ds \<noteq> [] \<and> list_all (is_digit_in 10) ds
                then Some (if neg then - number_in 10 ds else number_in 10 ds)
                else None)
          else None)"

definition parse_unsigned_decimal :: "bool \<Rightarrow> string \<Rightarrow> jsnum" where
  "parse_unsigned_decimal neg s =
     (if s = ''Infinity'' then Infinity neg
      else
        let ip = takeWhile (is_digit_in 10) s;
            r1 = dropWhile (is_digit_in 10) s;
            has_dot = (r1 \<noteq> [] \<and> hd r1 = CHR ''.'');
            fp = (if has_dot then takeWhile (is_digit_in 10) (tl r1) else []);
            r2 = (if has_dot then dropWhile (is_digit_in 10) (tl r1) else r1)
        in if ip = [] \<and> fp = [] then NaN
           else
             (case parse_exponent r2 of
                None \<Rightarrow> NaN
              | Some ex \<Rightarrow> double_of_decimal neg (number_in 10 (ip @ fp)) (ex - int (length fp))))"

definition parse_non_decimal :: "int \<Rightarrow> string \<Rightarrow> jsnum" where
  "parse_non_decimal radix ds =
     (if ds \<noteq> [] \<and> list_all (is_digit_in radix) ds
      then round_to_double False (number_in radix ds) 1
      else NaN)"

definition StringToNumber :: "string \<Rightarrow> jsnum" where
  "StringToNumber str =
     (case trim str of
        [] \<Rightarrow> Finite False 0 (- 1074)
      | c # r \<Rightarrow>
          if c = CHR ''-'' then parse_unsigned_decimal True r
          else if c = CHR ''+'' then parse_unsigned_decimal False r
          else if c = CHR ''0'' \<and> r \<noteq> [] \<and> hd r \<in> set ''xX'' then parse_non_decimal 16 (tl r)
          else if c = CHR ''0'' \<and> r \<noteq> [] \<and> hd r \<in> set ''oO'' then parse_non_decimal 8 (tl r)
          else if c = CHR ''0'' \<and> r \<noteq> [] \<and> hd r \<in> set ''bB'' then parse_non_decimal 2 (tl r)
          else parse_unsigned_decimal False (c # r))"

section \<open>Amount conversion (bignumber.js)\<close>

text \<open>
  A \<^verbatim>\<open>BigNumber\<close> is an arbitrary-precision decimal: a sign, a coefficient \<open>c\<close>
  and an exponent \<open>e\<close>, standing for \<open>c * 10 ^ e\<close>. Of the library the plugin uses
  three operations. \<^verbatim>\<open>BigNumber(v)\<close> on a number \<open>v\<close> takes the decimal that
  \<^verbatim>\<open>String(v)\<close> prints; \<^verbatim>\<open>shiftedBy(k)\<close> multiplies by \<open>10 ^ k\<close>,
  exactly; \<^verbatim>\<open>toNumber()\<close> converts the decimal back to the nearest double.
\<close>

datatype BigNumber = BN_NaN | BN_Infinity bool | BN bool int int

definition BigNumber_of_number :: "jsnum \<Rightarrow> BigNumber" where
  "BigNumber_of_number v =
     (case v of
        NaN \<Rightarrow> BN_NaN
      | Infinity neg \<Rightarrow> BN_Infinity neg
      | Finite neg m e \<Rightarrow>
          if m = 0 then BN neg 0 0
          else let (s, n) = shortest_digits m e in BN neg s (n - int (ndigits s)))"

definition shiftedBy :: "BigNumber \<Rightarrow> int \<Rightarrow> BigNumber" where
  "shiftedBy b k = (case b of BN neg c e \<Rightarrow> BN neg c (e + k) | _ \<Rightarrow> b)"

definition toNumber :: "BigNumber \<Rightarrow> jsnum" where
  "toNumber b =
     (case b of
        BN_NaN \<Rightarrow> NaN
      | BN_Infinity neg \<Rightarrow> Infinity neg
      | BN neg c e \<Rightarrow> double_of_decimal neg c e)"

text \<open>
  \<^verbatim>\<open>function parseAmount(n, decimals) { return BigNumber(n).shiftedBy(decimals); }\<close>
  \<^verbatim>\<open>function parseBTC(n) { return parseAmount(n, 8).toNumber(); }\<close>
  \<^verbatim>\<open>function parseETH(n) { return parseAmount(n, 18).toNumber(); }\<close>
\<close>

definition parseAmount :: "jsnum \<Rightarrow> int \<Rightarrow> BigNumber" where
  "parseAmount n decimals = shiftedBy (BigNumber_of_number n) decimals"

definition parseBTC :: "jsnum \<Rightarrow> jsnum" where
  "parseBTC n = toNumber (parseAmount n 8)"

definition parseETH :: "jsnum \<Rightarrow> jsnum" where
  "parseETH n = toNumber (parseAmount n 18)"

text \<open>
  The value the transfer routines put on the wire:
  \<^verbatim>\<open>parseBTC(Number(amount)).toFixed()\<close> and
  \<^verbatim>\<open>parseETH(Number(amount)).toFixed()\<close>.
\<close>

definition btc_wire_value :: "string \<Rightarrow> string" where
  "btc_wire_value amount = Number_toFixed (parseBTC (StringToNumber amount))"

definition eth_wire_value :: "string \<Rightarrow> string" where
  "eth_wire_value amount = Number_toFixed (parseETH (StringToNumber amount))"

text \<open>
  The conversion as the specification words it: the decimal amount times
  \<open>10 ^ decimals\<close>, computed exactly and printed as an integer. It is defined for
  an unsigned decimal literal with at most \<open>decimals\<close> fraction digits.
\<close>

definition exact_base_units :: "string \<Rightarrow> nat \<Rightarrow> string option" where
  "exact_base_units amount decimals =
     (let ip = takeWhile (is_digit_in 10) amount;
          r = dropWhile (is_digit_in 10) amount;
          fp = (if r \<noteq> [] \<and> hd r = CHR ''.'' then tl r else [])
      in if ip \<noteq> [] \<and> (r = [] \<or> hd r = CHR ''.'') \<and> list_all (is_digit_in 10) fp \<and>
            length fp \<le> decimals
         then Some (digits_of (number_in 10 (ip @ fp) * 10 ^ (decimals - length fp)))
         else None)"

section \<open>Values, settings and failures\<close>

text \<open>
  What the language model returns is an arbitrary JSON-like value. An array is
  an object for everything the plugin does with it (\<^verbatim>\<open>typeof\<close> and the lookup
  of a named property).
\<close>

datatype jsval =
    JUndefined
  | JNull
  | JBool bool
  | JNumber jsnum
  | JString string
  | JObject "(string \<times> jsval) list"

definition typeof :: "jsval \<Rightarrow> string" where
  "typeof v =
     (case v of
        JUndefined \<Rightarrow> ''undefined''
      | JNull \<Rightarrow> ''object''
      | JBool _ \<Rightarrow> ''boolean''
      | JNumber _ \<Rightarrow> ''number''
      | JString _ \<Rightarrow> ''string''
      | JObject _ \<Rightarrow> ''object'')"

text \<open>
  \<^verbatim>\<open>String(v)\<close>, which is what a template literal and, for a string or a
  number, \<^verbatim>\<open>v.toString()\<close> produce.
\<close>

definition ToString :: "jsval \<Rightarrow> string" where
  "ToString v =
     (case v of
        JUndefined \<Rightarrow> ''undefined''
      | JNull \<Rightarrow> ''null''
      | JBool b \<Rightarrow> (if b then ''true'' else ''false'')
      | JNumber x \<Rightarrow> Number_toString x
      | JString s \<Rightarrow> s
      | JObject _ \<Rightarrow> ''[object Object]'')"

text \<open>A thrown value: an \<^verbatim>\<open>Error\<close> or a \<^verbatim>\<open>TypeError\<close> with its message.\<close>

datatype exn = Error string | TypeError string

text \<open>
  An error inside a template literal, \<^verbatim>\<open>`${error}`\<close>: the name, and after a
  colon the message when there is one. Thrown values that are not errors are not
  modelled.
\<close>

definition exn_to_string :: "exn \<Rightarrow> string" where
  "exn_to_string x =
     (case x of
        Error m \<Rightarrow> (if m = [] then ''Error'' else ''Error: '' @ m)
      | TypeError m \<Rightarrow> (if m = [] then ''TypeError'' else ''TypeError: '' @ m))"

text \<open>
  \<^verbatim>\<open>content.name\<close>: reading a property of \<^verbatim>\<open>null\<close> or
  \<^verbatim>\<open>undefined\<close> throws, a property an object lacks is \<^verbatim>\<open>undefined\<close>,
  and so is the property of a primitive value for the three names read here.
\<close>

definition get_prop :: "jsval \<Rightarrow> string \<Rightarrow> exn + jsval" where
  "get_prop v name =
     (case v of
        JUndefined \<Rightarrow>
          Inl (TypeError
                 (''Cannot read properties of undefined (reading '' @ [CHR 0x27] @ name @
                  [CHR 0x27] @ '')''))
      | JNull \<Rightarrow>
          Inl (TypeError
                 (''Cannot read properties of null (reading '' @ [CHR 0x27] @ name @
                  [CHR 0x27] @ '')''))
      | JObject fields \<Rightarrow> Inr (case map_of fields name of Some x \<Rightarrow> x | None \<Rightarrow> JUndefined)
      | _ \<Rightarrow> Inr JUndefined)"

text \<open>
  \<^verbatim>\<open>runtime.getSetting(key)\<close> is a lookup that yields a string or nothing. A
  setting is falsy (\<^verbatim>\<open>!value\<close>) when it is absent or the empty string;
  \<^verbatim>\<open>a ?? b\<close> replaces only an absent one.
\<close>

type_synonym settings = "string \<Rightarrow> string option"

definition getSetting :: "settings \<Rightarrow> string \<Rightarrow> string option" where
  "getSetting runtime key = runtime key"

definition falsy :: "string option \<Rightarrow> bool" where
  "falsy v = (case v of None \<Rightarrow> True | Some s \<Rightarrow> s = [])"

definition nullish_or :: "'a option \<Rightarrow> 'a \<Rightarrow> 'a" where
  "nullish_or v d = (case v of None \<Rightarrow> d | Some x \<Rightarrow> x)"

definition falsy_or :: "string option \<Rightarrow> string \<Rightarrow> string" where
  "falsy_or v d = (case v of None \<Rightarrow> d | Some s \<Rightarrow> if s = [] then d else s)"

section \<open>Config resolver\<close>

record chain_signature =
  entry_nearNetworkId :: string
  entry_contract :: string

text \<open>
  \<^verbatim>\<open>CHAIN_SIGNATURES_CONFIG[nearNetworkId]\<close>: the table has the two keys
  \<^verbatim>\<open>mainnet\<close> and \<^verbatim>\<open>testnet\<close>; any other key finds nothing to spread.
\<close>

definition CHAIN_SIGNATURES_CONFIG :: "string \<Rightarrow> chain_signature option" where
  "CHAIN_SIGNATURES_CONFIG key =
     (if key = ''mainnet''
      then Some \<lparr>entry_nearNetworkId = ''mainnet'', entry_contract = ''v1.signer''\<rparr>
      else if key = ''testnet''
      then Some \<lparr>entry_nearNetworkId = ''testnet'', entry_contract = ''v1.signer-prod.testnet''\<rparr>
      else None)"

datatype chain_type = BTC | EVM

fun getDerivationPath :: "chain_type \<Rightarrow> string" where
  "getDerivationPath BTC = ''bitcoin-1''"
| "getDerivationPath EVM = ''evm-1''"

definition MEMPOOL_API_URL_mainnet :: string where
  "MEMPOOL_API_URL_mainnet = ''https://mempool.space/api''"

definition MEMPOOL_API_URL_testnet :: string where
  "MEMPOOL_API_URL_testnet = ''https://mempool.space/testnet4/api''"

text \<open>
  A resolved config. \<open>nearNetworkId\<close> and \<open>contract\<close> come from spreading the table's
  entry, and are absent when the table has none for the network.
\<close>

record chain_config =
  nearNetworkId :: "string option"
  contract :: "string option"
  providerUrl :: string

record bitcoin_config = chain_config +
  network :: string

definition getBitcoinConfig :: "settings \<Rightarrow> bitcoin_config" where
  "getBitcoinConfig runtime =
     (let nearNetworkId = nullish_or (getSetting runtime ''NEAR_NETWORK'') ''testnet'';
          providerUrl =
            nullish_or (getSetting runtime ''BTC_PROVIDER_URL'')
              (if nearNetworkId = ''mainnet'' then MEMPOOL_API_URL_mainnet
               else MEMPOOL_API_URL_testnet);
          network = nullish_or (getSetting runtime ''BTC_NETWORK'') ''testnet''
      in \<lparr>nearNetworkId = map_option entry_nearNetworkId (CHAIN_SIGNATURES_CONFIG nearNetworkId),
          contract = map_option entry_contract (CHAIN_SIGNATURES_CONFIG nearNetworkId),
          providerUrl = providerUrl,
          network = network\<rparr>)"

definition getEvmConfig :: "settings \<Rightarrow> chain_config" where
  "getEvmConfig runtime =
     (let nearNetworkId = nullish_or (getSetting runtime ''NEAR_NETWORK'') ''testnet'';
          providerUrl = nullish_or (getSetting runtime ''EVM_PROVIDER_URL'') ''https://sepolia.drpc.org''
      in \<lparr>nearNetworkId = map_option entry_nearNetworkId (CHAIN_SIGNATURES_CONFIG nearNetworkId),
          contract = map_option entry_contract (CHAIN_SIGNATURES_CONFIG nearNetworkId),
          providerUrl = providerUrl\<rparr>)"

text \<open>
  The single-asset variant has one table, \<^verbatim>\<open>BITCOIN_CONFIGS[networkId]\<close>, with
  \<^verbatim>\<open>networkId = runtime.getSetting("NEAR_NETWORK") || "testnet"\<close>. The table is
  modelled with its own two keys; what the theorems below say of this variant
  they say for a network the table has.
\<close>

definition BITCOIN_CONFIGS :: "string \<Rightarrow> bitcoin_config option" where
  "BITCOIN_CONFIGS key =
     (if key = ''mainnet''
      then Some \<lparr>nearNetworkId = Some ''mainnet'', contract = Some ''v1.signer'',
                 providerUrl = ''https://mempool.space/api'', network = ''mainnet''\<rparr>
      else if key = ''testnet''
      then Some \<lparr>nearNetworkId = Some ''testnet'', contract = Some ''v1.signer-prod.testnet'',
                 providerUrl = ''https://mempool.space/testnet4/api'', network = ''testnet''\<rparr>
      else None)"

section \<open>The outside world\<close>

text \<open>
  The plugin calls into the agent runtime, the language model and the
  multichain-tools library. Each of these calls is a parameter of the model: a
  function that yields the call's result, or the value it throws (a rejected
  promise is a throw at the \<^verbatim>\<open>await\<close>).
\<close>

record derived =
  address :: string
  publicKey :: string

record transaction =
  tx_to :: string
  tx_value :: string
  tx_from :: string
  tx_publicKey :: "string option"

record sign_request =
  req_transaction :: transaction
  req_network :: "string option"
  req_providerUrl :: string
  req_contract :: "string option"
  req_accountId :: string
  req_networkId :: "string option"
  req_derivationPath :: string

text \<open>\<^verbatim>\<open>{success: true, transactionHash}\<close> or \<^verbatim>\<open>{success: false, errorMessage}\<close>.\<close>

datatype sign_response = Sign_success string | Sign_failure string

text \<open>What the handler passes to its callback.\<close>

datatype response_content =
    Error_text string
  | Error_thrown exn
  | Success string jsval string

record response =
  text_of :: string
  content_of :: response_content

text \<open>
  The callback the host passes to the handler is an outside call as well: the
  handler calls it without a guard of its own, so when it throws, the throw
  continues from the place of the call.
\<close>

record env =
  deriveAddressAndPublicKey :: "chain_type \<Rightarrow> string \<Rightarrow> string \<Rightarrow> exn + derived"
  KeyPair_fromString :: "string \<Rightarrow> exn + string"
  signAndSendBTCTransaction :: "sign_request \<Rightarrow> string \<Rightarrow> exn + sign_response"
  signAndSendEVMTransaction :: "sign_request \<Rightarrow> string \<Rightarrow> exn + sign_response"
  composeState :: "string \<Rightarrow> exn + string"
  updateRecentMessageState :: "string \<Rightarrow> exn + string"
  composeContext :: "string \<Rightarrow> exn + string"
  generateObject :: "string \<Rightarrow> exn + jsval"
  callback :: "response \<Rightarrow> exn + unit"

text \<open>
  Everything a run does that is visible outside is recorded, in order: the lines
  it logs, the calls it makes and the callbacks it invokes. So that a run shows
  whether the handler reached the dispatcher, the handler's call of the transfer
  routine is recorded too, with the symbol, the recipient and the amount it passes.
\<close>

datatype log_level = LOG | INFO | ERROR

datatype event =
    Logged log_level string
  | Derive chain_type string string
  | SignAndSend chain_type sign_request string
  | ComposeState string
  | UpdateRecentMessageState string
  | ComposeContext string
  | GenerateObject string
  | Dispatch string string string
  | Callback response

text \<open>
  A computation yields the events it caused and then either the value it
  returns or the value it throws.
\<close>

type_synonym 'a comp = "event list \<times> (exn + 'a)"

definition ret :: "'a \<Rightarrow> 'a comp" where
  "ret v = ([], Inr v)"

definition throw :: "exn \<Rightarrow> 'a comp" where
  "throw x = ([], Inl x)"

definition emit :: "event \<Rightarrow> unit comp" where
  "emit ev = ([ev], Inr ())"

text \<open>An outside call: the call is recorded, and its outcome is the oracle's.\<close>

definition call :: "event \<Rightarrow> (exn + 'a) \<Rightarrow> 'a comp" where
  "call ev outcome = ([ev], outcome)"

definition lift :: "(exn + 'a) \<Rightarrow> 'a comp" where
  "lift outcome = ([], outcome)"

text \<open>Sequencing: a throw ends the computation, keeping the events so far.\<close>

definition bind_comp :: "'a comp \<Rightarrow> ('a \<Rightarrow> 'b comp) \<Rightarrow> 'b comp" where
  "bind_comp m f =
     (case m of
        (t, Inl x) \<Rightarrow> (t, Inl x)
      | (t, Inr v) \<Rightarrow> (case f v of (t', r) \<Rightarrow> (t @ t', r)))"

text \<open>\<^verbatim>\<open>try { m } catch (error) { h(error) }\<close>\<close>

definition try_catch :: "'a comp \<Rightarrow> (exn \<Rightarrow> 'a comp) \<Rightarrow> 'a comp" where
  "try_catch m h =
     (case m of
        (t, Inl x) \<Rightarrow> (case h x of (t', r) \<Rightarrow> (t @ t', r))
      | (t, Inr v) \<Rightarrow> (t, Inr v))"

section \<open>Transfer dispatcher\<close>

text \<open>
  \<^verbatim>\<open>transferBTC(runtime, recipient, amount)\<close> of the two-asset build: the
  credentials guard, the config, the derivation call, the request with the
  converted amount, the key parsed from the secret, the sign-and-send call, and
  the inspection of its result.
\<close>

definition transferBTC :: "env \<Rightarrow> settings \<Rightarrow> string \<Rightarrow> string \<Rightarrow> string comp" where
  "transferBTC world runtime recipient amount =
     (let accountId = getSetting runtime ''NEAR_ADDRESS'';
          secretKey = getSetting runtime ''NEAR_WALLET_SECRET_KEY''
      in if falsy accountId \<or> falsy secretKey
         then throw (Error ''NEAR wallet credentials not configured'')
         else
           let acct = nullish_or accountId [];
               secret = nullish_or secretKey [];
               config = getBitcoinConfig runtime;
               derivationPath = getDerivationPath BTC
           in bind_comp
                (call (Derive BTC acct derivationPath)
                   (deriveAddressAndPublicKey world BTC acct derivationPath))
                (\<lambda>d.
                   let request =
                         \<lparr>req_transaction =
                            \<lparr>tx_to = recipient, tx_value = btc_wire_value amount,
                             tx_from = address d, tx_publicKey = Some (publicKey d)\<rparr>,
                          req_network = Some (network config),
                          req_providerUrl = providerUrl config,
                          req_contract = contract config,
                          req_accountId = acct,
                          req_networkId = nearNetworkId config,
                          req_derivationPath = derivationPath\<rparr>
                   in bind_comp (lift (KeyPair_fromString world secret))
                        (\<lambda>keyPair.
                           bind_comp
                             (call (SignAndSend BTC request keyPair)
                                (signAndSendBTCTransaction world request keyPair))
                             (\<lambda>response.
                                case response of
                                  Sign_success transactionHash \<Rightarrow> ret transactionHash
                                | Sign_failure errorMessage \<Rightarrow>
                                    throw (Error (''Transfer BTC failed with error: '' @ errorMessage))))))"

definition transferEth :: "env \<Rightarrow> settings \<Rightarrow> string \<Rightarrow> string \<Rightarrow> string comp" where
  "transferEth world runtime recipient amount =
     (let accountId = getSetting runtime ''NEAR_ADDRESS'';
          secretKey = getSetting runtime ''NEAR_WALLET_SECRET_KEY''
      in if falsy accountId \<or> falsy secretKey
         then throw (Error ''NEAR wallet credentials not configured'')
         else
           let acct = nullish_or accountId [];
               secret = nullish_or secretKey [];
               config = getEvmConfig runtime;
               derivationPath = getDerivationPath EVM
           in bind_comp
                (call (Derive EVM acct derivationPath)
                   (deriveAddressAndPublicKey world EVM acct derivationPath))
                (\<lambda>d.
                   let request =
                         \<lparr>req_transaction =
                            \<lparr>tx_to = recipient, tx_value = eth_wire_value amount,
                             tx_from = address d, tx_publicKey = None\<rparr>,
                          req_network = None,
                          req_providerUrl = providerUrl config,
                          req_contract = contract config,
                          req_accountId = acct,
                          req_networkId = nearNetworkId config,
                          req_derivationPath = derivationPath\<rparr>
                   in bind_comp (lift (KeyPair_fromString world secret))
                        (\<lambda>keyPair.
                           bind_comp
                             (call (SignAndSend EVM request keyPair)
                                (signAndSendEVMTransaction world request keyPair))
                             (\<lambda>response.
                                case response of
                                  Sign_success transactionHash \<Rightarrow> ret transactionHash
                                | Sign_failure errorMessage \<Rightarrow>
                                    throw (Error (''Transfer ETH failed with error: '' @ errorMessage))))))"

text \<open>\<^verbatim>\<open>switch (symbol) { case "BTC": ... case "ETH": ... default: throw ... }\<close>\<close>

definition transfer :: "env \<Rightarrow> settings \<Rightarrow> string \<Rightarrow> string \<Rightarrow> string \<Rightarrow> string comp" where
  "transfer world runtime symbol recipient amount =
     (if symbol = ''BTC'' then transferBTC world runtime recipient amount
      else if symbol = ''ETH'' then transferEth world runtime recipient amount
      else throw (Error (''Unsupported symbol to transfer: '' @ symbol)))"

text \<open>
  \<^verbatim>\<open>transferBTC\<close> of the single-asset sources. The config is the entry of
  \<^verbatim>\<open>BITCOIN_CONFIGS\<close>; for a network the table lacks it is
  \<^verbatim>\<open>undefined\<close>, and the library's constructor, which reads the fields of its
  argument, throws.
\<close>

definition transferBTC_single :: "env \<Rightarrow> settings \<Rightarrow> string \<Rightarrow> string \<Rightarrow> string comp" where
  "transferBTC_single world runtime recipient amount =
     (let accountId = getSetting runtime ''NEAR_ADDRESS'';
          secretKey = getSetting runtime ''NEAR_WALLET_SECRET_KEY''
      in if falsy accountId \<or> falsy secretKey
         then throw (Error ''BTC wallet credentials not configured'')
         else
           let acct = nullish_or accountId [];
               secret = nullish_or secretKey [];
               networkId = falsy_or (getSetting runtime ''NEAR_NETWORK'') ''testnet'';
               derivationPath = ''bitcoin-1''
           in case BITCOIN_CONFIGS networkId of
                None \<Rightarrow> throw (TypeError ''Cannot read properties of undefined'')
              | Some bitcoinConfig \<Rightarrow>
                  bind_comp
                    (call (Derive BTC acct derivationPath)
                       (deriveAddressAndPublicKey world BTC acct derivationPath))
                    (\<lambda>d.
                       let request =
                             \<lparr>req_transaction =
                                \<lparr>tx_to = recipient, tx_value = btc_wire_value amount,
                                 tx_from = address d, tx_publicKey = Some (publicKey d)\<rparr>,
                              req_network = Some (network bitcoinConfig),
                              req_providerUrl = providerUrl bitcoinConfig,
                              req_contract = contract bitcoinConfig,
                              req_accountId = acct,
                              req_networkId = nearNetworkId bitcoinConfig,
                              req_derivationPath = derivationPath\<rparr>
                       in bind_comp (lift (KeyPair_fromString world secret))
                            (\<lambda>keyPair.
                               bind_comp
                                 (call (SignAndSend BTC request keyPair)
                                    (signAndSendBTCTransaction world request keyPair))
                                 (\<lambda>response.
                                    case response of
                                      Sign_success transactionHash \<Rightarrow> ret transactionHash
                                    | Sign_failure errorMessage \<Rightarrow>
                                        throw
                                          (Error (''Transfer BTC failed with error: '' @ errorMessage))))))"

section \<open>Intent extractor and action handler\<close>

text \<open>
  The manual check of the two-asset build:
  \<^verbatim>\<open>typeof content.recipient === "string" && (typeof content.amount === "string"
  || typeof content.amount === "number") && typeof content.symbol === "string"\<close>.
  Reading \<^verbatim>\<open>content.recipient\<close> throws when \<^verbatim>\<open>content\<close> is
  \<^verbatim>\<open>null\<close> or \<^verbatim>\<open>undefined\<close>.
\<close>

definition isTransferContent :: "jsval \<Rightarrow> exn + bool" where
  "isTransferContent content =
     (case get_prop content ''recipient'' of
        Inl x \<Rightarrow> Inl x
      | Inr recipient \<Rightarrow>
          (case get_prop content ''amount'' of
             Inl x \<Rightarrow> Inl x
           | Inr amount \<Rightarrow>
               (case get_prop content ''symbol'' of
                  Inl x \<Rightarrow> Inl x
                | Inr symbol \<Rightarrow>
                    Inr (typeof recipient = ''string'' \<and>
                         (typeof amount = ''string'' \<or> typeof amount = ''number'') \<and>
                         typeof symbol = ''string''))))"

text \<open>The manual check of the single-asset sources, which has no symbol.\<close>

definition isTransferContent_single :: "jsval \<Rightarrow> exn + bool" where
  "isTransferContent_single content =
     (case get_prop content ''recipient'' of
        Inl x \<Rightarrow> Inl x
      | Inr recipient \<Rightarrow>
          (case get_prop content ''amount'' of
             Inl x \<Rightarrow> Inl x
           | Inr amount \<Rightarrow>
               Inr (typeof recipient = ''string'' \<and>
                    (typeof amount = ''string'' \<or> typeof amount = ''number''))))"

text \<open>
  The check as the specification words it: recipient is a string; amount is a
  string or a number; symbol, when present, is one of the supported values.
\<close>

definition spec_type_check :: "jsval \<Rightarrow> bool" where
  "spec_type_check content =
     (case (get_prop content ''recipient'', get_prop content ''amount'',
            get_prop content ''symbol'') of
        (Inr recipient, Inr amount, Inr symbol) \<Rightarrow>
          typeof recipient = ''string'' \<and>
          (typeof amount = ''string'' \<or> typeof amount = ''number'') \<and>
          (symbol = JUndefined \<or> symbol = JString ''BTC'' \<or> symbol = JString ''ETH'')
      | _ \<Rightarrow> False)"

text \<open>A property of a value that has been read before without a throw.\<close>

definition read_field :: "jsval \<Rightarrow> string \<Rightarrow> jsval" where
  "read_field content name = (case get_prop content name of Inr v \<Rightarrow> v | Inl _ \<Rightarrow> JUndefined)"

text \<open>
  \<^verbatim>\<open>if (callback) { callback(r); }\<close>: the callback is optional, and a
  callback that throws makes this statement throw.
\<close>

definition invoke :: "env \<Rightarrow> bool \<Rightarrow> response \<Rightarrow> unit comp" where
  "invoke world has_callback r =
     (if has_callback then call (Callback r) (callback world r) else ret ())"

definition rejection :: response where
  "rejection =
     \<lparr>text_of = ''Unable to process transfer request. Invalid content provided.'',
      content_of = Error_text ''Invalid transfer content''\<rparr>"

text \<open>
  The three things a handler says at its end. On success:
  \<^verbatim>\<open>{text: `Successfully transferred ${amount} ${symbol} to ${recipient}\nTransaction:
  ${txHash}`, content: {success: true, signature: txHash, amount, recipient}}\<close>. On a
  caught error: the log line \<^verbatim>\<open>`Error during ${symbol} transfer: ${error}`\<close> and
  \<^verbatim>\<open>{text: `Error transferring ${symbol}: ${error}`, content: {error}}\<close>. In the
  single-asset sources the symbol is the fixed text BTC.
\<close>

definition success_response :: "jsval \<Rightarrow> string \<Rightarrow> string \<Rightarrow> string \<Rightarrow> response" where
  "success_response amount symbol recipient txHash =
     \<lparr>text_of =
        ''Successfully transferred '' @ ToString amount @ '' '' @ symbol @ '' to '' @ recipient @
        [CHR 0x0A] @ ''Transaction: '' @ txHash,
      content_of = Success txHash amount recipient\<rparr>"

definition failure_log :: "string \<Rightarrow> exn \<Rightarrow> event" where
  "failure_log symbol error =
     Logged ERROR (''Error during '' @ symbol @ '' transfer: '' @ exn_to_string error)"

definition failure_response :: "string \<Rightarrow> exn \<Rightarrow> response" where
  "failure_response symbol error =
     \<lparr>text_of = ''Error transferring '' @ symbol @ '': '' @ exn_to_string error,
      content_of = Error_thrown error\<rparr>"

text \<open>
  The first half of both handlers: the state is composed or refreshed, the
  context is built from it, and the model is asked for the object. None of it is
  inside a \<^verbatim>\<open>try\<close>.
\<close>

definition extract_content :: "env \<Rightarrow> string \<Rightarrow> string option \<Rightarrow> jsval comp" where
  "extract_content world message state =
     bind_comp
       (case state of
          None \<Rightarrow> call (ComposeState message) (composeState world message)
        | Some st \<Rightarrow> call (UpdateRecentMessageState st) (updateRecentMessageState world st))
       (\<lambda>currentState.
          bind_comp (call (ComposeContext currentState) (composeContext world currentState))
            (\<lambda>transferContext.
               call (GenerateObject transferContext) (generateObject world transferContext)))"

text \<open>\<^verbatim>\<open>executeTransfer.handler\<close> of the two-asset build.\<close>

definition handler :: "env \<Rightarrow> settings \<Rightarrow> string \<Rightarrow> string option \<Rightarrow> bool \<Rightarrow> bool comp" where
  "handler world runtime message state has_callback =
     bind_comp (extract_content world message state)
       (\<lambda>content.
          bind_comp (lift (isTransferContent content))
            (\<lambda>valid.
               if \<not> valid then
                 bind_comp
                   (emit (Logged ERROR ''Invalid content for MULTI_CHAIN_TRANSFER_TOKEN action:''))
                   (\<lambda>_. bind_comp (invoke world has_callback rejection) (\<lambda>_. ret False))
               else
                 let symbol = ToString (read_field content ''symbol'');
                     recipient = ToString (read_field content ''recipient'');
                     amount = read_field content ''amount''
                 in try_catch
                      (bind_comp
                         (bind_comp (emit (Dispatch symbol recipient (ToString amount)))
                            (\<lambda>_. transfer world runtime symbol recipient (ToString amount)))
                         (\<lambda>txHash.
                            bind_comp
                              (invoke world has_callback
                                 (success_response amount symbol recipient txHash))
                              (\<lambda>_. ret True)))
                      (\<lambda>error.
                         bind_comp
                           (emit (failure_log symbol error))
                           (\<lambda>_.
                              bind_comp
                                (invoke world has_callback (failure_response symbol error))
                                (\<lambda>_. ret False)))))"

text \<open>\<^verbatim>\<open>executeBtcTransfer.handler\<close> of the single-asset sources.\<close>

definition handler_single ::
  "env \<Rightarrow> settings \<Rightarrow> string \<Rightarrow> string option \<Rightarrow> bool \<Rightarrow> bool comp" where
  "handler_single world runtime message state has_callback =
     bind_comp (extract_content world message state)
       (\<lambda>content.
          bind_comp (lift (isTransferContent_single content))
            (\<lambda>valid.
               if \<not> valid then
                 bind_comp (emit (Logged ERROR ''Invalid content for TRANSFER_BTC action:''))
                   (\<lambda>_. bind_comp (invoke world has_callback rejection) (\<lambda>_. ret False))
               else
                 let recipient = ToString (read_field content ''recipient'');
                     amount = read_field content ''amount''
                 in try_catch
                      (bind_comp
                         (bind_comp (emit (Dispatch ''BTC'' recipient (ToString amount)))
                            (\<lambda>_. transferBTC_single world runtime recipient (ToString amount)))
                         (\<lambda>txHash.
                            bind_comp
                              (invoke world has_callback
                                 (success_response amount ''BTC'' recipient txHash))
                              (\<lambda>_. ret True)))
                      (\<lambda>error.
                         bind_comp
                           (emit (failure_log ''BTC'' error))
                           (\<lambda>_.
                              bind_comp
                                (invoke world has_callback (failure_response ''BTC'' error))
                                (\<lambda>_. ret False)))))"

section \<open>Address derivation cache\<close>

text \<open>
  \<^verbatim>\<open>new NodeCache({ stdTTL: 300 })\<close> (the node-cache library): an entry is
  stored with the time it expires, \<open>stdTTL\<close> seconds after the clock's reading, in
  milliseconds; a lookup that finds an entry whose time has passed deletes it and
  finds nothing.
\<close>

type_synonym 'v node_cache = "string \<Rightarrow> ('v \<times> int) option"

definition stdTTL :: int where
  "stdTTL = 300"

definition NodeCache_new :: "'v node_cache" where
  "NodeCache_new = (\<lambda>key. None)"

definition NodeCache_get ::
  "'v node_cache \<Rightarrow> int \<Rightarrow> string \<Rightarrow> 'v option \<times> 'v node_cache" where
  "NodeCache_get c now key =
     (case c key of
        None \<Rightarrow> (None, c)
      | Some (v, expires) \<Rightarrow>
          if expires \<noteq> 0 \<and> expires < now then (None, c(key := None)) else (Some v, c))"

definition NodeCache_set :: "'v node_cache \<Rightarrow> int \<Rightarrow> string \<Rightarrow> 'v \<Rightarrow> 'v node_cache" where
  "NodeCache_set c now key v = c(key \<mapsto> (v, now + stdTTL * 1000))"

record 'v provider =
  accountId :: string
  cache :: "'v node_cache"

text \<open>\<^verbatim>\<open>new DerivedAddressProvider(accountId)\<close>\<close>

definition DerivedAddressProvider :: "string \<Rightarrow> 'v provider" where
  "DerivedAddressProvider acct = \<lparr>accountId = acct, cache = NodeCache_new\<rparr>"

record addresses =
  btc :: string
  evm :: string

definition cache_hit :: event where
  "cache_hit = Logged LOG ''Cache hit for fetchPortfolioValue''"

text \<open>
  \<^verbatim>\<open>getDerivedAddress\<close> of the two-asset build. \<open>now\<close> is the clock's reading at
  the cache lookup and \<open>later\<close> its reading when the result is stored. The cached
  value is an object, so \<^verbatim>\<open>if (cachedValue)\<close> holds whenever an entry is found.
  The result carries the provider as the call leaves it.
\<close>

definition getDerivedAddress ::
  "env \<Rightarrow> settings \<Rightarrow> addresses provider \<Rightarrow> int \<Rightarrow> int \<Rightarrow>
     (addresses provider \<times> addresses option) comp" where
  "getDerivedAddress world runtime this now later =
     (let cacheKey = ''derived-addresses-'' @ accountId this;
          (cachedValue, c) = NodeCache_get (cache this) now cacheKey
      in try_catch
           (case cachedValue of
              Some v \<Rightarrow> bind_comp (emit cache_hit) (\<lambda>_. ret (this\<lparr>cache := c\<rparr>, Some v))
            | None \<Rightarrow>
                bind_comp
                  (call (Derive BTC (accountId this) (getDerivationPath BTC))
                     (deriveAddressAndPublicKey world BTC (accountId this) (getDerivationPath BTC)))
                  (\<lambda>b.
                     bind_comp
                       (call (Derive EVM (accountId this) (getDerivationPath EVM))
                          (deriveAddressAndPublicKey world EVM (accountId this)
                             (getDerivationPath EVM)))
                       (\<lambda>e.
                          let found = \<lparr>btc = address b, evm = address e\<rparr>
                          in bind_comp (emit (Logged INFO ''Chain Signatures derived addresses:''))
                               (\<lambda>_.
                                  ret (this\<lparr>cache := NodeCache_set c later cacheKey found\<rparr>,
                                       Some found)))))
           (\<lambda>error.
              bind_comp
                (emit (Logged ERROR (''Error in derived address provider: '' @ exn_to_string error)))
                (\<lambda>_. ret (this\<lparr>cache := c\<rparr>, None))))"

text \<open>
  \<^verbatim>\<open>getDerivedAddress\<close> of the single-asset sources. The cached value is the
  address, a string, so \<^verbatim>\<open>if (cachedValue)\<close> fails for the empty string.
\<close>

definition getDerivedAddress_single ::
  "env \<Rightarrow> settings \<Rightarrow> string provider \<Rightarrow> int \<Rightarrow> int \<Rightarrow>
     (string provider \<times> string option) comp" where
  "getDerivedAddress_single world runtime this now later =
     (let cacheKey = ''derived-address-bitcoin-'' @ accountId this;
          (cachedValue, c) = NodeCache_get (cache this) now cacheKey
      in try_catch
           (if \<not> falsy cachedValue
            then bind_comp (emit cache_hit) (\<lambda>_. ret (this\<lparr>cache := c\<rparr>, cachedValue))
            else
              let networkId = falsy_or (getSetting runtime ''NEAR_NETWORK'') ''testnet''
              in case BITCOIN_CONFIGS networkId of
                   None \<Rightarrow> throw (TypeError ''Cannot read properties of undefined'')
                 | Some bitcoinConfig \<Rightarrow>
                     bind_comp
                       (call (Derive BTC (accountId this) ''bitcoin-1'')
                          (deriveAddressAndPublicKey world BTC (accountId this) ''bitcoin-1''))
                       (\<lambda>d.
                          ret (this\<lparr>cache := NodeCache_set c later cacheKey (address d)\<rparr>,
                               Some (address d))))
           (\<lambda>error.
              bind_comp
                (emit (Logged ERROR (''Error in derived address provider: '' @ exn_to_string error)))
                (\<lambda>_. ret (this\<lparr>cache := c\<rparr>, None))))"

text \<open>
  \<^verbatim>\<open>walletProvider.get\<close>: the account is read from the settings, a provider
  is constructed for it, and its \<^verbatim>\<open>get\<close> is the result; the provider is not
  kept.
\<close>

definition walletProvider_get :: "env \<Rightarrow> settings \<Rightarrow> int \<Rightarrow> int \<Rightarrow> addresses option comp" where
  "walletProvider_get world runtime now later =
     try_catch
       (let acct = getSetting runtime ''NEAR_ADDRESS''
        in if falsy acct then throw (Error ''NEAR_ADDRESS not configured'')
           else
             bind_comp
               (getDerivedAddress world runtime (DerivedAddressProvider (nullish_or acct [])) now later)
               (\<lambda>(this, found). ret found))
       (\<lambda>error.
          bind_comp
            (emit (Logged ERROR (''Error in get derived address provider: '' @ exn_to_string error)))
            (\<lambda>_. ret None))"

definition walletProvider_get_single ::
  "env \<Rightarrow> settings \<Rightarrow> int \<Rightarrow> int \<Rightarrow> string option comp" where
  "walletProvider_get_single world runtime now later =
     try_catch
       (let acct = getSetting runtime ''NEAR_ADDRESS''
        in if falsy acct then throw (Error ''NEAR_ADDRESS not configured'')
           else
             bind_comp
               (getDerivedAddress_single world runtime (DerivedAddressProvider (nullish_or acct []))
                  now later)
               (\<lambda>(this, found). ret found))
       (\<lambda>error.
          bind_comp
            (emit (Logged ERROR (''Error in get derived address provider: '' @ exn_to_string error)))
            (\<lambda>_. ret None))"

section \<open>Sample runs\<close>

text \<open>
  A configured runtime, a well-formed extraction and an outside world in which
  every call succeeds; the theorems below are instantiated on them and on
  variations of them.
\<close>

definition demo_settings :: settings where
  "demo_settings =
     map_of [(''NEAR_ADDRESS'', ''alice.testnet''), (''NEAR_WALLET_SECRET_KEY'', ''ed25519:secret'')]"

definition demo_content :: "string \<Rightarrow> jsval" where
  "demo_content symbol =
     JObject
       [(''recipient'', JString ''tb1qrecipient''), (''amount'', JString ''0.0001''),
        (''symbol'', JString symbol)]"

definition demo_world :: env where
  "demo_world =
     \<lparr>deriveAddressAndPublicKey = (\<lambda>chain acct path. Inr \<lparr>address = ''tb1qsender'', publicKey = ''02ab''\<rparr>),
      KeyPair_fromString = (\<lambda>secret. Inr secret),
      signAndSendBTCTransaction = (\<lambda>request keyPair. Inr (Sign_success ''f00d'')),
      signAndSendEVMTransaction = (\<lambda>request keyPair. Inr (Sign_success ''0xf00d'')),
      composeState = (\<lambda>message. Inr ''state''),
      updateRecentMessageState = (\<lambda>st. Inr st),
      composeContext = (\<lambda>st. Inr ''context''),
      generateObject = (\<lambda>context. Inr (demo_content ''BTC'')),
      callback = (\<lambda>r. Inr ())\<rparr>"

definition no_secret_settings :: settings where
  "no_secret_settings = map_of [(''NEAR_ADDRESS'', ''alice.testnet'')]"

definition mainnet_settings :: settings where
  "mainnet_settings = map_of [(''NEAR_NETWORK'', ''mainnet'')]"

definition betanet_settings :: settings where
  "betanet_settings = map_of [(''NEAR_NETWORK'', ''betanet'')]"


definition no_model_world :: env where
  "no_model_world = demo_world\<lparr>generateObject := (\<lambda>context. Inl (Error ''model unavailable''))\<rparr>"

definition doge_world :: env where
  "doge_world = demo_world\<lparr>generateObject := (\<lambda>context. Inr (demo_content ''DOGE''))\<rparr>"

definition no_recipient_content :: jsval where
  "no_recipient_content = JObject [(''amount'', JString ''0.0001''), (''symbol'', JString ''BTC'')]"

definition no_recipient_world :: env where
  "no_recipient_world = demo_world\<lparr>generateObject := (\<lambda>context. Inr no_recipient_content)\<rparr>"


definition offline_world :: env where
  "offline_world =
     demo_world
       \<lparr>deriveAddressAndPublicKey := (\<lambda>chain acct path. Inl (Error ''fetch failed''))\<rparr>"

definition evm_offline_world :: env where
  "evm_offline_world =
     demo_world
       \<lparr>deriveAddressAndPublicKey :=
          (\<lambda>chain acct path.
             if chain = EVM then Inl (Error ''fetch failed'')
             else Inr \<lparr>address = ''tb1qsender'', publicKey = ''02ab''\<rparr>)\<rparr>"

section \<open>Laws of computations\<close>

lemma bind_ret [simp]: "bind_comp (ret v) f = f v"
  by (simp add: bind_comp_def ret_def split: prod.splits)

lemma bind_throw [simp]: "bind_comp (throw x) f = throw x"
  by (simp add: bind_comp_def throw_def)

lemma bind_Inl [simp]: "bind_comp (t, Inl x) f = (t, Inl x)"
  by (simp add: bind_comp_def)

lemma bind_Inr [simp]: "bind_comp (t, Inr v) f = (t @ fst (f v), snd (f v))"
  by (simp add: bind_comp_def split: prod.splits)

lemma bind_emit [simp]: "bind_comp (emit ev) f = (ev # fst (f ()), snd (f ()))"
  by (simp add: emit_def)

lemma try_Inl [simp]: "try_catch (t, Inl x) h = (t @ fst (h x), snd (h x))"
  by (simp add: try_catch_def split: prod.splits)

lemma try_Inr [simp]: "try_catch (t, Inr v) h = (t, Inr v)"
  by (simp add: try_catch_def)

lemmas comp_defs = ret_def throw_def emit_def call_def lift_def invoke_def

section \<open>Transfer dispatcher: unsupported symbols\<close>

text \<open>
  Claim C7. For every symbol other than BTC and ETH, the dispatch function
  \<open>transfer\<close> throws an error whose message names the symbol, and the run has no
  event at all: neither the derivation call nor the sign-and-send call is made.
\<close>

theorem transfer_unsupported_symbol:
  assumes "symbol \<noteq> ''BTC''" and "symbol \<noteq> ''ETH''"
  shows "transfer world runtime symbol recipient amount =
           ([], Inl (Error (''Unsupported symbol to transfer: '' @ symbol)))"
  using assms by (simp add: transfer_def throw_def)

theorem transfer_unsupported_symbol_witness:
  "''DOGE'' \<noteq> ''BTC'' \<and> ''DOGE'' \<noteq> ''ETH'' \<and>
   transfer demo_world demo_settings ''DOGE'' ''tb1qrecipient'' ''1'' =
     ([], Inl (Error ''Unsupported symbol to transfer: DOGE''))"
  using transfer_unsupported_symbol [of "''DOGE''" demo_world demo_settings "''tb1qrecipient''" "''1''"]
  by simp

section \<open>Transfer dispatcher: missing credentials\<close>

text \<open>
  Claim C8. When the account identifier (\<^verbatim>\<open>NEAR_ADDRESS\<close>) or the secret signing
  key (\<^verbatim>\<open>NEAR_WALLET_SECRET_KEY\<close>) is absent from the settings, each transfer
  routine, called directly or through \<open>transfer\<close> with its symbol, throws the
  credentials error, and the run has no event: it fails before the derivation
  call and before the sign-and-send call.
\<close>

theorem missing_credentials_fail_fast:
  assumes "getSetting runtime ''NEAR_ADDRESS'' = None \<or>
           getSetting runtime ''NEAR_WALLET_SECRET_KEY'' = None"
  shows "transferBTC world runtime recipient amount =
           ([], Inl (Error ''NEAR wallet credentials not configured'')) \<and>
         transferEth world runtime recipient amount =
           ([], Inl (Error ''NEAR wallet credentials not configured'')) \<and>
         transfer world runtime ''BTC'' recipient amount =
           ([], Inl (Error ''NEAR wallet credentials not configured'')) \<and>
         transfer world runtime ''ETH'' recipient amount =
           ([], Inl (Error ''NEAR wallet credentials not configured'')) \<and>
         transferBTC_single world runtime recipient amount =
           ([], Inl (Error ''BTC wallet credentials not configured''))"
proof -
  from assms have missing:
    "falsy (getSetting runtime ''NEAR_ADDRESS'') \<or> falsy (getSetting runtime ''NEAR_WALLET_SECRET_KEY'')"
    by (auto simp: falsy_def)
  have btc: "transferBTC world runtime recipient amount =
           ([], Inl (Error ''NEAR wallet credentials not configured''))"
    using missing by (simp add: transferBTC_def throw_def Let_def)
  have eth: "transferEth world runtime recipient amount =
           ([], Inl (Error ''NEAR wallet credentials not configured''))"
    using missing by (simp add: transferEth_def throw_def Let_def)
  have single: "transferBTC_single world runtime recipient amount =
           ([], Inl (Error ''BTC wallet credentials not configured''))"
    using missing by (simp add: transferBTC_single_def throw_def Let_def)
  show ?thesis using btc eth single by (simp add: transfer_def)
qed

theorem missing_credentials_fail_fast_witness:
  "(getSetting no_secret_settings ''NEAR_ADDRESS'' = None \<or>
    getSetting no_secret_settings ''NEAR_WALLET_SECRET_KEY'' = None) \<and>
   transferBTC demo_world no_secret_settings ''tb1qrecipient'' ''0.0001'' =
     ([], Inl (Error ''NEAR wallet credentials not configured'')) \<and>
   transferEth demo_world no_secret_settings ''0xrecipient'' ''1.5'' =
     ([], Inl (Error ''NEAR wallet credentials not configured'')) \<and>
   transferBTC_single demo_world no_secret_settings ''tb1qrecipient'' ''0.0001'' =
     ([], Inl (Error ''BTC wallet credentials not configured''))"
proof -
  have h: "getSetting no_secret_settings ''NEAR_ADDRESS'' = None \<or>
           getSetting no_secret_settings ''NEAR_WALLET_SECRET_KEY'' = None"
    by (simp add: getSetting_def no_secret_settings_def)
  show ?thesis
    using h missing_credentials_fail_fast [OF h, of demo_world "''tb1qrecipient''" "''0.0001''"]
      missing_credentials_fail_fast [OF h, of demo_world "''0xrecipient''" "''1.5''"]
    by simp
qed

section \<open>Config resolver\<close>

text \<open>
  Claim C10, as amended. Config resolution is a total function of the settings.
  With \<^verbatim>\<open>NEAR_NETWORK\<close> unset the network is testnet; for testnet and mainnet
  the network's fixed signer contract is attached, and for any other value of
  \<^verbatim>\<open>NEAR_NETWORK\<close> neither a network id nor a contract is attached. An unset
  BTC provider URL falls back to the mempool endpoint of the network (the mainnet
  one for mainnet, the testnet4 one otherwise); an unset EVM provider URL falls
  back to the one Sepolia endpoint, whatever the network. A provider URL that is
  set is used as it is.
\<close>

theorem config_resolution_defaults:
  "(getSetting runtime ''NEAR_NETWORK'' = None \<longrightarrow>
      nearNetworkId (getBitcoinConfig runtime) = Some ''testnet'' \<and>
      nearNetworkId (getEvmConfig runtime) = Some ''testnet'' \<and>
      contract (getBitcoinConfig runtime) = Some ''v1.signer-prod.testnet'' \<and>
      contract (getEvmConfig runtime) = Some ''v1.signer-prod.testnet'') \<and>
   (getSetting runtime ''NEAR_NETWORK'' = Some ''testnet'' \<longrightarrow>
      nearNetworkId (getBitcoinConfig runtime) = Some ''testnet'' \<and>
      nearNetworkId (getEvmConfig runtime) = Some ''testnet'' \<and>
      contract (getBitcoinConfig runtime) = Some ''v1.signer-prod.testnet'' \<and>
      contract (getEvmConfig runtime) = Some ''v1.signer-prod.testnet'') \<and>
   (getSetting runtime ''NEAR_NETWORK'' = Some ''mainnet'' \<longrightarrow>
      nearNetworkId (getBitcoinConfig runtime) = Some ''mainnet'' \<and>
      nearNetworkId (getEvmConfig runtime) = Some ''mainnet'' \<and>
      contract (getBitcoinConfig runtime) = Some ''v1.signer'' \<and>
      contract (getEvmConfig runtime) = Some ''v1.signer'') \<and>
   (\<forall>n. getSetting runtime ''NEAR_NETWORK'' = Some n \<and> n \<noteq> ''mainnet'' \<and> n \<noteq> ''testnet'' \<longrightarrow>
      nearNetworkId (getBitcoinConfig runtime) = None \<and>
      nearNetworkId (getEvmConfig runtime) = None \<and>
      contract (getBitcoinConfig runtime) = None \<and>
      contract (getEvmConfig runtime) = None) \<and>
   (getSetting runtime ''BTC_PROVIDER_URL'' = None \<longrightarrow>
      providerUrl (getBitcoinConfig runtime) =
        (if getSetting runtime ''NEAR_NETWORK'' = Some ''mainnet''
         then ''https://mempool.space/api'' else ''https://mempool.space/testnet4/api'')) \<and>
   (getSetting runtime ''EVM_PROVIDER_URL'' = None \<longrightarrow>
      providerUrl (getEvmConfig runtime) = ''https://sepolia.drpc.org'') \<and>
   (\<forall>u. getSetting runtime ''BTC_PROVIDER_URL'' = Some u \<longrightarrow>
      providerUrl (getBitcoinConfig runtime) = u) \<and>
   (\<forall>u. getSetting runtime ''EVM_PROVIDER_URL'' = Some u \<longrightarrow>
      providerUrl (getEvmConfig runtime) = u)"
  by (auto simp: getBitcoinConfig_def getEvmConfig_def nullish_or_def CHAIN_SIGNATURES_CONFIG_def
      MEMPOOL_API_URL_mainnet_def MEMPOOL_API_URL_testnet_def Let_def split: option.splits)

theorem config_resolution_defaults_witness:
  "getSetting (\<lambda>key. None) ''NEAR_NETWORK'' = None \<and>
   getSetting (\<lambda>key. None) ''BTC_PROVIDER_URL'' = None \<and>
   getSetting (\<lambda>key. None) ''EVM_PROVIDER_URL'' = None \<and>
   nearNetworkId (getBitcoinConfig (\<lambda>key. None)) = Some ''testnet'' \<and>
   contract (getBitcoinConfig (\<lambda>key. None)) = Some ''v1.signer-prod.testnet'' \<and>
   contract (getEvmConfig (\<lambda>key. None)) = Some ''v1.signer-prod.testnet'' \<and>
   providerUrl (getBitcoinConfig (\<lambda>key. None)) = ''https://mempool.space/testnet4/api'' \<and>
   providerUrl (getEvmConfig (\<lambda>key. None)) = ''https://sepolia.drpc.org'' \<and>
   getSetting mainnet_settings ''NEAR_NETWORK'' = Some ''mainnet'' \<and>
   contract (getBitcoinConfig mainnet_settings) = Some ''v1.signer'' \<and>
   contract (getEvmConfig mainnet_settings) = Some ''v1.signer'' \<and>
   providerUrl (getBitcoinConfig mainnet_settings) = ''https://mempool.space/api'' \<and>
   providerUrl (getEvmConfig mainnet_settings) = ''https://sepolia.drpc.org''"
  using config_resolution_defaults [of "\<lambda>key. None"] config_resolution_defaults [of mainnet_settings]
  by (simp add: getSetting_def mainnet_settings_def)

text \<open>
  The claim as stated fails: with \<^verbatim>\<open>NEAR_NETWORK\<close> set to a name the table
  lacks, no signer contract is attached; and the EVM fallback endpoint is the
  same for mainnet as for testnet.
\<close>

theorem config_resolution_counterexample:
  "contract (getBitcoinConfig betanet_settings) = None \<and>
   contract (getEvmConfig betanet_settings) = None \<and>
   providerUrl (getEvmConfig mainnet_settings) = providerUrl (getEvmConfig (\<lambda>key. None))"
  by (simp add: getBitcoinConfig_def getEvmConfig_def getSetting_def nullish_or_def
      CHAIN_SIGNATURES_CONFIG_def betanet_settings_def mainnet_settings_def Let_def)

section \<open>Action handler\<close>

lemma extract_no_dispatch:
  assumes "extract_content world message state = (evs0, r)"
  shows "Dispatch s rc a \<notin> set evs0" and "\<forall>c. Callback c \<notin> set evs0"
  using assms
  by (auto simp: extract_content_def bind_comp_def call_def
      split: option.splits prod.splits sum.splits)

lemma invoke_returns:
  assumes "cb \<longrightarrow> callback world r = Inr ()"
  shows "invoke world cb r = (if cb then [Callback r] else [], Inr ())"
  using assms by (simp add: invoke_def call_def ret_def)

lemma invoke_trace: "fst (invoke world cb r) = (if cb then [Callback r] else [])"
  by (simp add: invoke_def call_def ret_def)

lemma fst_bind_invoke:
  "fst (bind_comp (invoke world cb r) (\<lambda>u. ret v)) = (if cb then [Callback r] else [])"
  by (cases "callback world r") (simp_all add: invoke_def call_def ret_def)

lemma handler_extract_fails:
  assumes "extract_content world message state = (evs0, Inl x)"
  shows "handler world runtime message state cb = (evs0, Inl x)"
  using assms by (simp add: handler_def)

lemma handler_check_throws:
  assumes "extract_content world message state = (evs0, Inr content)"
    and "isTransferContent content = Inl x"
  shows "handler world runtime message state cb = (evs0, Inl x)"
  using assms by (simp add: handler_def lift_def)

lemma handler_rejects_trace:
  assumes "extract_content world message state = (evs0, Inr content)"
    and "isTransferContent content = Inr False"
  shows "fst (handler world runtime message state cb) =
           evs0 @ [Logged ERROR ''Invalid content for MULTI_CHAIN_TRANSFER_TOKEN action:''] @
             (if cb then [Callback rejection] else [])"
  using assms by (simp add: handler_def lift_def emit_def fst_bind_invoke)

lemma handler_rejects:
  assumes "extract_content world message state = (evs0, Inr content)"
    and "isTransferContent content = Inr False"
    and "cb \<longrightarrow> callback world rejection = Inr ()"
  shows "handler world runtime message state cb =
           (evs0 @ [Logged ERROR ''Invalid content for MULTI_CHAIN_TRANSFER_TOKEN action:''] @
              (if cb then [Callback rejection] else []), Inr False)"
  using assms(1,2) invoke_returns [OF assms(3)]
  by (simp add: handler_def lift_def ret_def)

text \<open>A callback that throws in the rejection branch makes the handler throw.\<close>

lemma handler_rejects_callback_throws:
  assumes "extract_content world message state = (evs0, Inr content)"
    and "isTransferContent content = Inr False"
    and "callback world rejection = Inl y"
  shows "handler world runtime message state True =
           (evs0 @ [Logged ERROR ''Invalid content for MULTI_CHAIN_TRANSFER_TOKEN action:'',
                    Callback rejection], Inl y)"
  using assms by (simp add: handler_def lift_def invoke_def call_def)

text \<open>So does a callback that throws inside the \<^verbatim>\<open>catch\<close> block.\<close>

lemma handler_catch_callback_throws:
  assumes "extract_content world message state = (evs0, Inr content)"
    and "isTransferContent content = Inr True"
    and "transfer world runtime (ToString (read_field content ''symbol''))
           (ToString (read_field content ''recipient'')) (ToString (read_field content ''amount'')) =
         (tevs, Inl x)"
    and "callback world (failure_response (ToString (read_field content ''symbol'')) x) = Inl y"
  shows "handler world runtime message state True =
           (evs0 @
            [Dispatch (ToString (read_field content ''symbol''))
               (ToString (read_field content ''recipient''))
               (ToString (read_field content ''amount''))] @
            tevs @
            [failure_log (ToString (read_field content ''symbol'')) x,
             Callback (failure_response (ToString (read_field content ''symbol'')) x)],
            Inl y)"
  using assms by (simp add: handler_def lift_def invoke_def call_def Let_def)

lemma handler_dispatch_fails:
  assumes "extract_content world message state = (evs0, Inr content)"
    and "isTransferContent content = Inr True"
    and "transfer world runtime (ToString (read_field content ''symbol''))
           (ToString (read_field content ''recipient'')) (ToString (read_field content ''amount'')) =
         (tevs, Inl x)"
    and "cb \<longrightarrow>
         callback world (failure_response (ToString (read_field content ''symbol'')) x) = Inr ()"
  shows "handler world runtime message state cb =
           (evs0 @
            [Dispatch (ToString (read_field content ''symbol''))
               (ToString (read_field content ''recipient''))
               (ToString (read_field content ''amount''))] @
            tevs @
            [failure_log (ToString (read_field content ''symbol'')) x] @
            (if cb then [Callback (failure_response (ToString (read_field content ''symbol'')) x)]
             else []),
            Inr False)"
  using assms(1,2,3) invoke_returns [OF assms(4)]
  by (simp add: handler_def lift_def ret_def Let_def)

lemma handler_dispatch_succeeds:
  assumes "extract_content world message state = (evs0, Inr content)"
    and "isTransferContent content = Inr True"
    and "transfer world runtime (ToString (read_field content ''symbol''))
           (ToString (read_field content ''recipient'')) (ToString (read_field content ''amount'')) =
         (tevs, Inr txHash)"
    and "cb \<longrightarrow>
         callback world
           (success_response (read_field content ''amount'') (ToString (read_field content ''symbol''))
              (ToString (read_field content ''recipient'')) txHash) = Inr ()"
  shows "handler world runtime message state cb =
           (evs0 @
            [Dispatch (ToString (read_field content ''symbol''))
               (ToString (read_field content ''recipient''))
               (ToString (read_field content ''amount''))] @
            tevs @
            (if cb
             then [Callback
                     (success_response (read_field content ''amount'')
                        (ToString (read_field content ''symbol''))
                        (ToString (read_field content ''recipient'')) txHash)]
             else []),
            Inr True)"
  using assms(1,2,3) invoke_returns [OF assms(4)]
  by (simp add: handler_def lift_def ret_def Let_def)

lemma handler_single_extract_fails:
  assumes "extract_content world message state = (evs0, Inl x)"
  shows "handler_single world runtime message state cb = (evs0, Inl x)"
  using assms by (simp add: handler_single_def)

lemma handler_single_rejects:
  assumes "extract_content world message state = (evs0, Inr content)"
    and "isTransferContent_single content = Inr False"
    and "cb \<longrightarrow> callback world rejection = Inr ()"
  shows "handler_single world runtime message state cb =
           (evs0 @ [Logged ERROR ''Invalid content for TRANSFER_BTC action:''] @
              (if cb then [Callback rejection] else []), Inr False)"
  using assms(1,2) invoke_returns [OF assms(3)]
  by (simp add: handler_single_def lift_def ret_def)

lemma handler_single_dispatch_fails:
  assumes "extract_content world message state = (evs0, Inr content)"
    and "isTransferContent_single content = Inr True"
    and "transferBTC_single world runtime (ToString (read_field content ''recipient''))
           (ToString (read_field content ''amount'')) = (tevs, Inl x)"
    and "cb \<longrightarrow> callback world (failure_response ''BTC'' x) = Inr ()"
  shows "handler_single world runtime message state cb =
           (evs0 @
            [Dispatch ''BTC'' (ToString (read_field content ''recipient''))
               (ToString (read_field content ''amount''))] @
            tevs @
            [failure_log ''BTC'' x] @
            (if cb then [Callback (failure_response ''BTC'' x)] else []),
            Inr False)"
  using assms(1,2,3) invoke_returns [OF assms(4)]
  by (simp add: handler_single_def lift_def ret_def Let_def)

lemma handler_single_dispatch_succeeds:
  assumes "extract_content world message state = (evs0, Inr content)"
    and "isTransferContent_single content = Inr True"
    and "transferBTC_single world runtime (ToString (read_field content ''recipient''))
           (ToString (read_field content ''amount'')) = (tevs, Inr txHash)"
    and "cb \<longrightarrow>
         callback world
           (success_response (read_field content ''amount'') ''BTC''
              (ToString (read_field content ''recipient'')) txHash) = Inr ()"
  shows "\<exists>evs. handler_single world runtime message state cb = (evs, Inr True)"
  using assms(1,2,3) invoke_returns [OF assms(4)]
  by (simp add: handler_single_def lift_def ret_def Let_def)

lemma handler_returns_after_check:
  assumes ex: "extract_content world message state = (evs0, Inr content)"
    and chk: "isTransferContent content = Inr valid"
    and cbok: "cb \<longrightarrow> (\<forall>r. callback world r = Inr ())"
  shows "\<exists>evs b. handler world runtime message state cb = (evs, Inr b)"
proof (cases valid)
  case False
  with chk have f: "isTransferContent content = Inr False" by simp
  from handler_rejects [OF ex f, of cb runtime] cbok show ?thesis by blast
next
  case True
  with chk have t: "isTransferContent content = Inr True" by simp
  obtain tevs r where tr:
    "transfer world runtime (ToString (read_field content ''symbol''))
       (ToString (read_field content ''recipient'')) (ToString (read_field content ''amount'')) =
     (tevs, r)"
    by (cases "transfer world runtime (ToString (read_field content ''symbol''))
       (ToString (read_field content ''recipient'')) (ToString (read_field content ''amount''))")
  show ?thesis
  proof (cases r)
    case (Inl x)
    from handler_dispatch_fails [OF ex t tr [unfolded Inl], of cb] cbok show ?thesis by blast
  next
    case (Inr h)
    from handler_dispatch_succeeds [OF ex t tr [unfolded Inr], of cb] cbok show ?thesis by blast
  qed
qed

lemma handler_single_returns_after_check:
  assumes ex: "extract_content world message state = (evs0, Inr content)"
    and chk: "isTransferContent_single content = Inr valid"
    and cbok: "cb \<longrightarrow> (\<forall>r. callback world r = Inr ())"
  shows "\<exists>evs b. handler_single world runtime message state cb = (evs, Inr b)"
proof (cases valid)
  case False
  with chk have f: "isTransferContent_single content = Inr False" by simp
  from handler_single_rejects [OF ex f, of cb runtime] cbok show ?thesis by blast
next
  case True
  with chk have t: "isTransferContent_single content = Inr True" by simp
  obtain tevs r where tr:
    "transferBTC_single world runtime (ToString (read_field content ''recipient''))
       (ToString (read_field content ''amount'')) = (tevs, r)"
    by (cases "transferBTC_single world runtime (ToString (read_field content ''recipient''))
       (ToString (read_field content ''amount''))")
  show ?thesis
  proof (cases r)
    case (Inl x)
    from handler_single_dispatch_fails [OF ex t tr [unfolded Inl], of cb] cbok
    show ?thesis by blast
  next
    case (Inr h)
    from handler_single_dispatch_succeeds [OF ex t tr [unfolded Inr], of cb] cbok
    show ?thesis by blast
  qed
qed

lemma extract_demo:
  "extract_content demo_world message None =
     ([ComposeState message, ComposeContext ''state'', GenerateObject ''context''],
      Inr (demo_content ''BTC''))"
  by (simp add: extract_content_def demo_world_def call_def)

lemma demo_content_fields:
  "read_field (demo_content s) ''symbol'' = JString s"
  "read_field (demo_content s) ''recipient'' = JString ''tb1qrecipient''"
  "read_field (demo_content s) ''amount'' = JString ''0.0001''"
  "isTransferContent (demo_content s) = Inr True"
  "isTransferContent_single (demo_content s) = Inr True"
  by (simp_all add: read_field_def get_prop_def demo_content_def isTransferContent_def
      isTransferContent_single_def typeof_def)

lemma demo_callback_returns: "callback demo_world r = Inr ()"
  by (simp add: demo_world_def)

text \<open>
  Claim C2, as amended. Take a callback that returns whenever it is called (or
  no callback). Once the object has been extracted and the manual check has
  given its verdict, both handlers return a boolean and do not throw: a failure
  of the transfer is caught, logged, passed to the callback (when there is one)
  with the thrown error in the payload, and turned into \<open>False\<close>. A throw of
  state composition, context composition or object generation is not caught: it
  leaves the handler as it is, and no callback is invoked.
\<close>

theorem handler_catches_dispatch_failures:
  "(\<forall>evs0 content valid.
      extract_content world message state = (evs0, Inr content) \<and>
      isTransferContent content = Inr valid \<and>
      (cb \<longrightarrow> (\<forall>r. callback world r = Inr ())) \<longrightarrow>
      (\<exists>evs b. handler world runtime message state cb = (evs, Inr b))) \<and>
   (\<forall>evs0 content tevs x.
      extract_content world message state = (evs0, Inr content) \<and>
      isTransferContent content = Inr True \<and>
      transfer world runtime (ToString (read_field content ''symbol''))
        (ToString (read_field content ''recipient'')) (ToString (read_field content ''amount'')) =
      (tevs, Inl x) \<and>
      (cb \<longrightarrow>
       callback world (failure_response (ToString (read_field content ''symbol'')) x) = Inr ()) \<longrightarrow>
      handler world runtime message state cb =
        (evs0 @
         [Dispatch (ToString (read_field content ''symbol''))
            (ToString (read_field content ''recipient''))
            (ToString (read_field content ''amount''))] @
         tevs @
         [failure_log (ToString (read_field content ''symbol'')) x] @
         (if cb then [Callback (failure_response (ToString (read_field content ''symbol'')) x)]
          else []),
         Inr False)) \<and>
   (\<forall>evs0 x.
      extract_content world message state = (evs0, Inl x) \<longrightarrow>
      handler world runtime message state cb = (evs0, Inl x)) \<and>
   (\<forall>evs0 content valid.
      extract_content world message state = (evs0, Inr content) \<and>
      isTransferContent_single content = Inr valid \<and>
      (cb \<longrightarrow> (\<forall>r. callback world r = Inr ())) \<longrightarrow>
      (\<exists>evs b. handler_single world runtime message state cb = (evs, Inr b))) \<and>
   (\<forall>evs0 content tevs x.
      extract_content world message state = (evs0, Inr content) \<and>
      isTransferContent_single content = Inr True \<and>
      transferBTC_single world runtime (ToString (read_field content ''recipient''))
        (ToString (read_field content ''amount'')) = (tevs, Inl x) \<and>
      (cb \<longrightarrow> callback world (failure_response ''BTC'' x) = Inr ()) \<longrightarrow>
      handler_single world runtime message state cb =
        (evs0 @
         [Dispatch ''BTC'' (ToString (read_field content ''recipient''))
            (ToString (read_field content ''amount''))] @
         tevs @
         [failure_log ''BTC'' x] @
         (if cb then [Callback (failure_response ''BTC'' x)] else []),
         Inr False)) \<and>
   (\<forall>evs0 x.
      extract_content world message state = (evs0, Inl x) \<longrightarrow>
      handler_single world runtime message state cb = (evs0, Inl x))"
proof (intro conjI allI impI)
  fix evs0 content valid
  assume "extract_content world message state = (evs0, Inr content) \<and>
          isTransferContent content = Inr valid \<and>
          (cb \<longrightarrow> (\<forall>r. callback world r = Inr ()))"
  then show "\<exists>evs b. handler world runtime message state cb = (evs, Inr b)"
    using handler_returns_after_check by blast
next
  fix evs0 content valid
  assume "extract_content world message state = (evs0, Inr content) \<and>
          isTransferContent_single content = Inr valid \<and>
          (cb \<longrightarrow> (\<forall>r. callback world r = Inr ()))"
  then show "\<exists>evs b. handler_single world runtime message state cb = (evs, Inr b)"
    using handler_single_returns_after_check by blast
qed (simp_all add: handler_dispatch_fails handler_extract_fails
      handler_single_dispatch_fails handler_single_extract_fails)

theorem handler_catches_dispatch_failures_witness:
  "extract_content demo_world ''send'' None =
     ([ComposeState ''send'', ComposeContext ''state'', GenerateObject ''context''],
      Inr (demo_content ''BTC'')) \<and>
   isTransferContent (demo_content ''BTC'') = Inr True \<and>
   (\<forall>r. callback demo_world r = Inr ()) \<and>
   transfer demo_world no_secret_settings ''BTC'' ''tb1qrecipient'' ''0.0001'' =
     ([], Inl (Error ''NEAR wallet credentials not configured'')) \<and>
   handler demo_world no_secret_settings ''send'' None True =
     ([ComposeState ''send'', ComposeContext ''state'', GenerateObject ''context'',
       Dispatch ''BTC'' ''tb1qrecipient'' ''0.0001'',
       Logged ERROR ''Error during BTC transfer: Error: NEAR wallet credentials not configured'',
       Callback
         \<lparr>text_of = ''Error transferring BTC: Error: NEAR wallet credentials not configured'',
          content_of = Error_thrown (Error ''NEAR wallet credentials not configured'')\<rparr>],
      Inr False) \<and>
   extract_content no_model_world ''send'' None =
     ([ComposeState ''send'', ComposeContext ''state'', GenerateObject ''context''],
      Inl (Error ''model unavailable'')) \<and>
   handler_single no_model_world demo_settings ''send'' None True =
     ([ComposeState ''send'', ComposeContext ''state'', GenerateObject ''context''],
      Inl (Error ''model unavailable''))"
proof -
  have ex: "extract_content demo_world ''send'' None =
     ([ComposeState ''send'', ComposeContext ''state'', GenerateObject ''context''],
      Inr (demo_content ''BTC''))"
    by (rule extract_demo)
  have chk: "isTransferContent (demo_content ''BTC'') = Inr True"
    by (rule demo_content_fields)
  have cbok: "\<forall>r. callback demo_world r = Inr ()"
    by (simp add: demo_callback_returns)
  have tr: "transfer demo_world no_secret_settings ''BTC'' ''tb1qrecipient'' ''0.0001'' =
     ([], Inl (Error ''NEAR wallet credentials not configured''))"
    by (simp add: transfer_def transferBTC_def throw_def Let_def falsy_def getSetting_def
        no_secret_settings_def)
  have ex2: "extract_content no_model_world ''send'' None =
     ([ComposeState ''send'', ComposeContext ''state'', GenerateObject ''context''],
      Inl (Error ''model unavailable''))"
    by (simp add: extract_content_def no_model_world_def demo_world_def call_def)
  note T1 = handler_catches_dispatch_failures
    [where world = demo_world and runtime = no_secret_settings and message = "''send''"
       and state = None and cb = True]
  note T2 = handler_catches_dispatch_failures
    [where world = no_model_world and runtime = demo_settings and message = "''send''"
       and state = None and cb = True]
  from T1 ex chk tr cbok have h1:
    "handler demo_world no_secret_settings ''send'' None True =
     ([ComposeState ''send'', ComposeContext ''state'', GenerateObject ''context'',
       Dispatch ''BTC'' ''tb1qrecipient'' ''0.0001'',
       Logged ERROR ''Error during BTC transfer: Error: NEAR wallet credentials not configured'',
       Callback
         \<lparr>text_of = ''Error transferring BTC: Error: NEAR wallet credentials not configured'',
          content_of = Error_thrown (Error ''NEAR wallet credentials not configured'')\<rparr>],
      Inr False)"
    by (simp add: demo_content_fields ToString_def exn_to_string_def failure_log_def
        failure_response_def)
  from T2 ex2 have h2:
    "handler_single no_model_world demo_settings ''send'' None True =
     ([ComposeState ''send'', ComposeContext ''state'', GenerateObject ''context''],
      Inl (Error ''model unavailable''))"
    by simp
  show ?thesis using ex chk cbok tr h1 ex2 h2 by simp
qed

text \<open>
  The claim as stated fails: when the generation call throws, the handler throws
  the same error and invokes no callback.
\<close>

theorem handler_raises_counterexample:
  "handler no_model_world demo_settings ''send 0.0001 BTC'' None True =
     ([ComposeState ''send 0.0001 BTC'', ComposeContext ''state'', GenerateObject ''context''],
      Inl (Error ''model unavailable''))"
  by (simp add: handler_def extract_content_def no_model_world_def demo_world_def call_def)

section \<open>Action handler: a refusal of the signer\<close>






section \<open>Intent extractor: the manual check\<close>

lemma typeof_string: "typeof v = ''string'' \<longleftrightarrow> (\<exists>s. v = JString s)"
  by (cases v) (simp_all add: typeof_def)

lemma typeof_number: "typeof v = ''number'' \<longleftrightarrow> (\<exists>x. v = JNumber x)"
  by (cases v) (simp_all add: typeof_def)

lemma isTransferContent_True:
  assumes "isTransferContent content = Inr True"
  shows "(\<exists>r. read_field content ''recipient'' = JString r) \<and>
         ((\<exists>a. read_field content ''amount'' = JString a) \<or>
          (\<exists>x. read_field content ''amount'' = JNumber x)) \<and>
         (\<exists>s. read_field content ''symbol'' = JString s)"
  using assms
  by (auto simp: isTransferContent_def read_field_def typeof_string typeof_number
      split: sum.splits)

lemma handler_dispatches:
  assumes ex: "extract_content world message state = (evs0, Inr content)"
    and chk: "isTransferContent content = Inr True"
  shows "Dispatch (ToString (read_field content ''symbol''))
           (ToString (read_field content ''recipient'')) (ToString (read_field content ''amount''))
         \<in> set (fst (handler world runtime message state cb))"
  using ex chk
  by (auto simp: handler_def lift_def emit_def Let_def bind_comp_def try_catch_def
      split: prod.splits sum.splits)

text \<open>
  Claim C5, as amended. For every object the generation call returns, the
  handler reaches the dispatcher only if the manual check holds, and the manual
  check requires recipient to be a string, amount to be a string or a number,
  and symbol to be a string: any string, and not an absent one. When the check
  fails, the handler logs, passes the rejection to the callback (when there is
  one) and does not reach the dispatcher; it then returns \<open>False\<close>, provided the
  callback returns.
\<close>

theorem dispatch_only_after_manual_check:
  assumes ex: "extract_content world message state = (evs0, Inr content)"
  shows "(isTransferContent content = Inr False \<longrightarrow>
            fst (handler world runtime message state cb) =
              evs0 @ [Logged ERROR ''Invalid content for MULTI_CHAIN_TRANSFER_TOKEN action:''] @
                (if cb then [Callback rejection] else []) \<and>
            (\<forall>s r a. Dispatch s r a \<notin> set (fst (handler world runtime message state cb))) \<and>
            ((cb \<longrightarrow> callback world rejection = Inr ()) \<longrightarrow>
               snd (handler world runtime message state cb) = Inr False)) \<and>
         ((\<exists>s r a. Dispatch s r a \<in> set (fst (handler world runtime message state cb))) \<longrightarrow>
            isTransferContent content = Inr True \<and>
            (\<exists>r. read_field content ''recipient'' = JString r) \<and>
            ((\<exists>a. read_field content ''amount'' = JString a) \<or>
             (\<exists>x. read_field content ''amount'' = JNumber x)) \<and>
            (\<exists>s. read_field content ''symbol'' = JString s))"
proof (intro conjI impI)
  assume f: "isTransferContent content = Inr False"
  show tr: "fst (handler world runtime message state cb) =
          evs0 @ [Logged ERROR ''Invalid content for MULTI_CHAIN_TRANSFER_TOKEN action:''] @
            (if cb then [Callback rejection] else [])"
    by (rule handler_rejects_trace [OF ex f])
  show "\<forall>s r a. Dispatch s r a \<notin> set (fst (handler world runtime message state cb))"
    using extract_no_dispatch(1) [OF ex] by (simp add: tr)
  assume "cb \<longrightarrow> callback world rejection = Inr ()"
  from handler_rejects [OF ex f this, of runtime]
  show "snd (handler world runtime message state cb) = Inr False" by simp
next
  assume d: "\<exists>s r a. Dispatch s r a \<in> set (fst (handler world runtime message state cb))"
  have t: "isTransferContent content = Inr True"
  proof (cases "isTransferContent content")
    case (Inl x)
    from handler_check_throws [OF ex Inl, of runtime cb] d extract_no_dispatch(1) [OF ex]
    show ?thesis by simp
  next
    case (Inr valid)
    show ?thesis
    proof (cases valid)
      case True
      with Inr show ?thesis by simp
    next
      case False
      with Inr have f: "isTransferContent content = Inr False" by simp
      from handler_rejects_trace [OF ex f, of runtime cb] d extract_no_dispatch(1) [OF ex]
      show ?thesis by simp
    qed
  qed
  show "isTransferContent content = Inr True" by (rule t)
  from isTransferContent_True [OF t]
  show "\<exists>r. read_field content ''recipient'' = JString r"
    and "(\<exists>a. read_field content ''amount'' = JString a) \<or>
         (\<exists>x. read_field content ''amount'' = JNumber x)"
    and "\<exists>s. read_field content ''symbol'' = JString s"
    by blast+
qed

theorem dispatch_only_after_manual_check_witness:
  "extract_content no_recipient_world ''send'' None =
     ([ComposeState ''send'', ComposeContext ''state'', GenerateObject ''context''],
      Inr no_recipient_content) \<and>
   isTransferContent no_recipient_content = Inr False \<and>
   callback no_recipient_world rejection = Inr () \<and>
   handler no_recipient_world demo_settings ''send'' None True =
     ([ComposeState ''send'', ComposeContext ''state'', GenerateObject ''context'',
       Logged ERROR ''Invalid content for MULTI_CHAIN_TRANSFER_TOKEN action:'',
       Callback
         \<lparr>text_of = ''Unable to process transfer request. Invalid content provided.'',
          content_of = Error_text ''Invalid transfer content''\<rparr>],
      Inr False) \<and>
   extract_content demo_world ''send'' None =
     ([ComposeState ''send'', ComposeContext ''state'', GenerateObject ''context''],
      Inr (demo_content ''BTC'')) \<and>
   (\<exists>s r a. Dispatch s r a \<in> set (fst (handler demo_world demo_settings ''send'' None True))) \<and>
   isTransferContent (demo_content ''BTC'') = Inr True \<and>
   read_field (demo_content ''BTC'') ''recipient'' = JString ''tb1qrecipient'' \<and>
   read_field (demo_content ''BTC'') ''amount'' = JString ''0.0001'' \<and>
   read_field (demo_content ''BTC'') ''symbol'' = JString ''BTC''"
proof -
  have ex1: "extract_content no_recipient_world ''send'' None =
     ([ComposeState ''send'', ComposeContext ''state'', GenerateObject ''context''],
      Inr no_recipient_content)"
    by (simp add: extract_content_def no_recipient_world_def demo_world_def call_def)
  have f: "isTransferContent no_recipient_content = Inr False"
    by (simp add: isTransferContent_def get_prop_def no_recipient_content_def typeof_def)
  have c: "callback no_recipient_world rejection = Inr ()"
    by (simp add: no_recipient_world_def demo_world_def)
  have d: "\<exists>s r a. Dispatch s r a \<in> set (fst (handler demo_world demo_settings ''send'' None True))"
    using handler_dispatches [OF extract_demo demo_content_fields(4)] by blast
  from dispatch_only_after_manual_check [OF ex1, where runtime = demo_settings and cb = True] f c
  have h1: "handler no_recipient_world demo_settings ''send'' None True =
     ([ComposeState ''send'', ComposeContext ''state'', GenerateObject ''context'',
       Logged ERROR ''Invalid content for MULTI_CHAIN_TRANSFER_TOKEN action:'',
       Callback
         \<lparr>text_of = ''Unable to process transfer request. Invalid content provided.'',
          content_of = Error_text ''Invalid transfer content''\<rparr>],
      Inr False)"
    by (simp add: rejection_def prod_eq_iff)
  from dispatch_only_after_manual_check [OF extract_demo, where runtime = demo_settings and cb = True] d
  have h2: "isTransferContent (demo_content ''BTC'') = Inr True" by blast
  show ?thesis using ex1 f c h1 extract_demo d h2 by (simp add: demo_content_fields)
qed

text \<open>
  The claim as stated fails: an object whose symbol is the string DOGE does not
  pass the check the specification words, yet the handler calls the dispatcher
  with it, and what the callback receives is the dispatcher's error, not the
  rejection.
\<close>

theorem dispatch_check_counterexample:
  "\<not> spec_type_check (demo_content ''DOGE'') \<and>
   handler doge_world demo_settings ''send'' None True =
     ([ComposeState ''send'', ComposeContext ''state'', GenerateObject ''context'',
       Dispatch ''DOGE'' ''tb1qrecipient'' ''0.0001'',
       Logged ERROR ''Error during DOGE transfer: Error: Unsupported symbol to transfer: DOGE'',
       Callback
         \<lparr>text_of = ''Error transferring DOGE: Error: Unsupported symbol to transfer: DOGE'',
          content_of = Error_thrown (Error ''Unsupported symbol to transfer: DOGE'')\<rparr>],
      Inr False)"
proof -
  have ex: "extract_content doge_world ''send'' None =
     ([ComposeState ''send'', ComposeContext ''state'', GenerateObject ''context''],
      Inr (demo_content ''DOGE''))"
    by (simp add: extract_content_def doge_world_def demo_world_def call_def)
  have tr: "transfer doge_world demo_settings (ToString (read_field (demo_content ''DOGE'') ''symbol''))
       (ToString (read_field (demo_content ''DOGE'') ''recipient''))
       (ToString (read_field (demo_content ''DOGE'') ''amount'')) =
     ([], Inl (Error ''Unsupported symbol to transfer: DOGE''))"
    by (simp add: demo_content_fields ToString_def transfer_def throw_def)
  have c: "True \<longrightarrow>
      callback doge_world
        (failure_response (ToString (read_field (demo_content ''DOGE'') ''symbol''))
           (Error ''Unsupported symbol to transfer: DOGE'')) = Inr ()"
    by (simp add: doge_world_def demo_world_def)
  have "\<not> spec_type_check (demo_content ''DOGE'')"
    by (simp add: spec_type_check_def get_prop_def demo_content_def)
  then show ?thesis
    using handler_dispatch_fails [OF ex demo_content_fields(4) tr c]
    by (simp add: demo_content_fields ToString_def exn_to_string_def failure_log_def
        failure_response_def)
qed

section \<open>Address derivation cache\<close>

lemma getDerivedAddress_hit:
  assumes "NodeCache_get (cache this) now (''derived-addresses-'' @ accountId this) = (Some v, c)"
  shows "getDerivedAddress world runtime this now later =
           ([cache_hit], Inr (this\<lparr>cache := c\<rparr>, Some v))"
  using assms by (simp add: getDerivedAddress_def comp_defs)

lemma getDerivedAddress_btc_fails:
  assumes "NodeCache_get (cache this) now (''derived-addresses-'' @ accountId this) = (None, c)"
    and "deriveAddressAndPublicKey world BTC (accountId this) ''bitcoin-1'' = Inl x"
  shows "getDerivedAddress world runtime this now later =
           ([Derive BTC (accountId this) ''bitcoin-1'',
             Logged ERROR (''Error in derived address provider: '' @ exn_to_string x)],
            Inr (this\<lparr>cache := c\<rparr>, None))"
  using assms by (simp add: getDerivedAddress_def comp_defs)

lemma getDerivedAddress_evm_fails:
  assumes "NodeCache_get (cache this) now (''derived-addresses-'' @ accountId this) = (None, c)"
    and "deriveAddressAndPublicKey world BTC (accountId this) ''bitcoin-1'' = Inr b"
    and "deriveAddressAndPublicKey world EVM (accountId this) ''evm-1'' = Inl x"
  shows "getDerivedAddress world runtime this now later =
           ([Derive BTC (accountId this) ''bitcoin-1'', Derive EVM (accountId this) ''evm-1'',
             Logged ERROR (''Error in derived address provider: '' @ exn_to_string x)],
            Inr (this\<lparr>cache := c\<rparr>, None))"
  using assms by (simp add: getDerivedAddress_def comp_defs)

lemma getDerivedAddress_derives:
  assumes "NodeCache_get (cache this) now (''derived-addresses-'' @ accountId this) = (None, c)"
    and "deriveAddressAndPublicKey world BTC (accountId this) ''bitcoin-1'' = Inr b"
    and "deriveAddressAndPublicKey world EVM (accountId this) ''evm-1'' = Inr e"
  shows "getDerivedAddress world runtime this now later =
           ([Derive BTC (accountId this) ''bitcoin-1'', Derive EVM (accountId this) ''evm-1'',
             Logged INFO ''Chain Signatures derived addresses:''],
            Inr (this\<lparr>cache :=
                        NodeCache_set c later (''derived-addresses-'' @ accountId this)
                          \<lparr>btc = address b, evm = address e\<rparr>\<rparr>,
                 Some \<lparr>btc = address b, evm = address e\<rparr>))"
  using assms by (simp add: getDerivedAddress_def comp_defs Let_def)

lemma getDerivedAddress_returns:
  "\<exists>evs this' found. getDerivedAddress world runtime this now later = (evs, Inr (this', found))"
proof -
  obtain cv c where g:
    "NodeCache_get (cache this) now (''derived-addresses-'' @ accountId this) = (cv, c)"
    by (cases "NodeCache_get (cache this) now (''derived-addresses-'' @ accountId this)")
  show ?thesis
  proof (cases cv)
    case (Some v)
    with g getDerivedAddress_hit show ?thesis by blast
  next
    case None
    note miss = g [unfolded None]
    show ?thesis
    proof (cases "deriveAddressAndPublicKey world BTC (accountId this) ''bitcoin-1''")
      case (Inl x)
      from getDerivedAddress_btc_fails [OF miss Inl] show ?thesis by blast
    next
      case b: (Inr b)
      show ?thesis
      proof (cases "deriveAddressAndPublicKey world EVM (accountId this) ''evm-1''")
        case (Inl x)
        from getDerivedAddress_evm_fails [OF miss b Inl] show ?thesis by blast
      next
        case (Inr e)
        from getDerivedAddress_derives [OF miss b Inr] show ?thesis by blast
      qed
    qed
  qed
qed

lemma getDerivedAddress_single_hit:
  assumes "NodeCache_get (cache this) now (''derived-address-bitcoin-'' @ accountId this) = (Some v, c)"
    and "v \<noteq> []"
  shows "getDerivedAddress_single world runtime this now later =
           ([cache_hit], Inr (this\<lparr>cache := c\<rparr>, Some v))"
  using assms by (simp add: getDerivedAddress_single_def comp_defs falsy_def)

lemma getDerivedAddress_single_no_config:
  assumes "NodeCache_get (cache this) now (''derived-address-bitcoin-'' @ accountId this) = (cv, c)"
    and "falsy cv"
    and "BITCOIN_CONFIGS (falsy_or (getSetting runtime ''NEAR_NETWORK'') ''testnet'') = None"
  shows "getDerivedAddress_single world runtime this now later =
           ([Logged ERROR
               (''Error in derived address provider: '' @
                exn_to_string (TypeError ''Cannot read properties of undefined''))],
            Inr (this\<lparr>cache := c\<rparr>, None))"
  using assms by (simp add: getDerivedAddress_single_def comp_defs Let_def)

lemma getDerivedAddress_single_fails:
  assumes "NodeCache_get (cache this) now (''derived-address-bitcoin-'' @ accountId this) = (cv, c)"
    and "falsy cv"
    and "BITCOIN_CONFIGS (falsy_or (getSetting runtime ''NEAR_NETWORK'') ''testnet'') = Some cfg"
    and "deriveAddressAndPublicKey world BTC (accountId this) ''bitcoin-1'' = Inl x"
  shows "getDerivedAddress_single world runtime this now later =
           ([Derive BTC (accountId this) ''bitcoin-1'',
             Logged ERROR (''Error in derived address provider: '' @ exn_to_string x)],
            Inr (this\<lparr>cache := c\<rparr>, None))"
  using assms by (simp add: getDerivedAddress_single_def comp_defs Let_def)

lemma getDerivedAddress_single_derives:
  assumes "NodeCache_get (cache this) now (''derived-address-bitcoin-'' @ accountId this) = (cv, c)"
    and "falsy cv"
    and "BITCOIN_CONFIGS (falsy_or (getSetting runtime ''NEAR_NETWORK'') ''testnet'') = Some cfg"
    and "deriveAddressAndPublicKey world BTC (accountId this) ''bitcoin-1'' = Inr d"
  shows "getDerivedAddress_single world runtime this now later =
           ([Derive BTC (accountId this) ''bitcoin-1''],
            Inr (this\<lparr>cache :=
                        NodeCache_set c later (''derived-address-bitcoin-'' @ accountId this)
                          (address d)\<rparr>,
                 Some (address d)))"
  using assms by (simp add: getDerivedAddress_single_def comp_defs Let_def)

lemma getDerivedAddress_single_returns:
  "\<exists>evs this' found.
     getDerivedAddress_single world runtime this now later = (evs, Inr (this', found))"
proof -
  obtain cv c where g:
    "NodeCache_get (cache this) now (''derived-address-bitcoin-'' @ accountId this) = (cv, c)"
    by (cases "NodeCache_get (cache this) now (''derived-address-bitcoin-'' @ accountId this)")
  show ?thesis
  proof (cases "falsy cv")
    case False
    then obtain v where "cv = Some v" "v \<noteq> []"
      by (auto simp: falsy_def split: option.splits)
    with g getDerivedAddress_single_hit show ?thesis by blast
  next
    case True
    show ?thesis
    proof (cases "BITCOIN_CONFIGS (falsy_or (getSetting runtime ''NEAR_NETWORK'') ''testnet'')")
      case None
      from getDerivedAddress_single_no_config [OF g True None] show ?thesis by blast
    next
      case (Some cfg)
      show ?thesis
      proof (cases "deriveAddressAndPublicKey world BTC (accountId this) ''bitcoin-1''")
        case (Inl x)
        from getDerivedAddress_single_fails [OF g True Some Inl] show ?thesis by blast
      next
        case (Inr d)
        from getDerivedAddress_single_derives [OF g True Some Inr] show ?thesis by blast
      qed
    qed
  qed
qed

lemma fresh_provider_misses:
  "NodeCache_get (cache (DerivedAddressProvider acct)) now key = (None, NodeCache_new)"
  "accountId (DerivedAddressProvider acct) = acct"
  by (simp_all add: NodeCache_get_def DerivedAddressProvider_def NodeCache_new_def)

text \<open>
  Claim C6. \<open>getDerivedAddress\<close>, in both variants, always returns and never
  throws. When the lookup finds nothing usable and an outside derivation call
  fails, the run logs the error after the calls it made, and the result is
  \<^verbatim>\<open>null\<close>; the cache is left as the lookup left it.
\<close>

theorem derivation_failure_yields_null:
  "(\<exists>evs this' found.
      getDerivedAddress world runtime this now later = (evs, Inr (this', found))) \<and>
   (\<forall>c x.
      NodeCache_get (cache this) now (''derived-addresses-'' @ accountId this) = (None, c) \<and>
      deriveAddressAndPublicKey world BTC (accountId this) ''bitcoin-1'' = Inl x \<longrightarrow>
      getDerivedAddress world runtime this now later =
        ([Derive BTC (accountId this) ''bitcoin-1'',
          Logged ERROR (''Error in derived address provider: '' @ exn_to_string x)],
         Inr (this\<lparr>cache := c\<rparr>, None))) \<and>
   (\<forall>c b x.
      NodeCache_get (cache this) now (''derived-addresses-'' @ accountId this) = (None, c) \<and>
      deriveAddressAndPublicKey world BTC (accountId this) ''bitcoin-1'' = Inr b \<and>
      deriveAddressAndPublicKey world EVM (accountId this) ''evm-1'' = Inl x \<longrightarrow>
      getDerivedAddress world runtime this now later =
        ([Derive BTC (accountId this) ''bitcoin-1'', Derive EVM (accountId this) ''evm-1'',
          Logged ERROR (''Error in derived address provider: '' @ exn_to_string x)],
         Inr (this\<lparr>cache := c\<rparr>, None))) \<and>
   (\<exists>evs this' found.
      getDerivedAddress_single world runtime that now later = (evs, Inr (this', found))) \<and>
   (\<forall>cv c cfg x.
      NodeCache_get (cache that) now (''derived-address-bitcoin-'' @ accountId that) = (cv, c) \<and>
      falsy cv \<and>
      BITCOIN_CONFIGS (falsy_or (getSetting runtime ''NEAR_NETWORK'') ''testnet'') = Some cfg \<and>
      deriveAddressAndPublicKey world BTC (accountId that) ''bitcoin-1'' = Inl x \<longrightarrow>
      getDerivedAddress_single world runtime that now later =
        ([Derive BTC (accountId that) ''bitcoin-1'',
          Logged ERROR (''Error in derived address provider: '' @ exn_to_string x)],
         Inr (that\<lparr>cache := c\<rparr>, None)))"
  using getDerivedAddress_returns getDerivedAddress_single_returns
  by (simp add: getDerivedAddress_btc_fails getDerivedAddress_evm_fails
      getDerivedAddress_single_fails)

theorem derivation_failure_yields_null_witness:
  "NodeCache_get (cache (DerivedAddressProvider ''alice.testnet'' :: addresses provider)) 0
     ''derived-addresses-alice.testnet'' = (None, NodeCache_new) \<and>
   deriveAddressAndPublicKey offline_world BTC ''alice.testnet'' ''bitcoin-1'' =
     Inl (Error ''fetch failed'') \<and>
   getDerivedAddress offline_world demo_settings (DerivedAddressProvider ''alice.testnet'') 0 1 =
     ([Derive BTC ''alice.testnet'' ''bitcoin-1'',
       Logged ERROR ''Error in derived address provider: Error: fetch failed''],
      Inr (DerivedAddressProvider ''alice.testnet'', None)) \<and>
   deriveAddressAndPublicKey evm_offline_world BTC ''alice.testnet'' ''bitcoin-1'' =
     Inr \<lparr>address = ''tb1qsender'', publicKey = ''02ab''\<rparr> \<and>
   deriveAddressAndPublicKey evm_offline_world EVM ''alice.testnet'' ''evm-1'' =
     Inl (Error ''fetch failed'') \<and>
   getDerivedAddress evm_offline_world demo_settings (DerivedAddressProvider ''alice.testnet'') 0 1 =
     ([Derive BTC ''alice.testnet'' ''bitcoin-1'', Derive EVM ''alice.testnet'' ''evm-1'',
       Logged ERROR ''Error in derived address provider: Error: fetch failed''],
      Inr (DerivedAddressProvider ''alice.testnet'', None)) \<and>
   NodeCache_get (cache (DerivedAddressProvider ''alice.testnet'' :: string provider)) 0
     ''derived-address-bitcoin-alice.testnet'' = (None, NodeCache_new) \<and>
   falsy None \<and>
   BITCOIN_CONFIGS (falsy_or (getSetting demo_settings ''NEAR_NETWORK'') ''testnet'') \<noteq> None \<and>
   getDerivedAddress_single offline_world demo_settings (DerivedAddressProvider ''alice.testnet'') 0 1 =
     ([Derive BTC ''alice.testnet'' ''bitcoin-1'',
       Logged ERROR ''Error in derived address provider: Error: fetch failed''],
      Inr (DerivedAddressProvider ''alice.testnet'', None))"
proof -
  let ?p = "DerivedAddressProvider ''alice.testnet'' :: addresses provider"
  let ?q = "DerivedAddressProvider ''alice.testnet'' :: string provider"
  have g1: "NodeCache_get (cache ?p) 0 (''derived-addresses-'' @ accountId ?p) = (None, NodeCache_new)"
    by (simp add: NodeCache_get_def DerivedAddressProvider_def NodeCache_new_def)
  have g2: "NodeCache_get (cache ?q) 0 (''derived-address-bitcoin-'' @ accountId ?q) =
              (None, NodeCache_new)"
    by (simp add: NodeCache_get_def DerivedAddressProvider_def NodeCache_new_def)
  have a: "accountId ?p = ''alice.testnet''" "accountId ?q = ''alice.testnet''"
    by (simp_all add: DerivedAddressProvider_def)
  have d1: "deriveAddressAndPublicKey offline_world BTC (accountId ?p) ''bitcoin-1'' =
              Inl (Error ''fetch failed'')"
    by (simp add: offline_world_def)
  have d2: "deriveAddressAndPublicKey evm_offline_world BTC (accountId ?p) ''bitcoin-1'' =
              Inr \<lparr>address = ''tb1qsender'', publicKey = ''02ab''\<rparr>"
    by (simp add: evm_offline_world_def)
  have d3: "deriveAddressAndPublicKey evm_offline_world EVM (accountId ?p) ''evm-1'' =
              Inl (Error ''fetch failed'')"
    by (simp add: evm_offline_world_def)
  have d4: "deriveAddressAndPublicKey offline_world BTC (accountId ?q) ''bitcoin-1'' =
              Inl (Error ''fetch failed'')"
    by (simp add: offline_world_def)
  have f: "falsy None" by (simp add: falsy_def)
  obtain cfg where cfg:
    "BITCOIN_CONFIGS (falsy_or (getSetting demo_settings ''NEAR_NETWORK'') ''testnet'') = Some cfg"
    by (simp add: BITCOIN_CONFIGS_def falsy_or_def getSetting_def demo_settings_def)
  have same: "?p\<lparr>cache := NodeCache_new\<rparr> = ?p" "?q\<lparr>cache := NodeCache_new\<rparr> = ?q"
    by (simp_all add: DerivedAddressProvider_def)
  note T1 = derivation_failure_yields_null
    [where world = offline_world and runtime = demo_settings and this = ?p and that = ?q
       and now = 0 and later = 1]
  note T2 = derivation_failure_yields_null
    [where world = evm_offline_world and runtime = demo_settings and this = ?p and that = ?q
       and now = 0 and later = 1]
  from T1 g1 d1 have r1:
    "getDerivedAddress offline_world demo_settings ?p 0 1 =
       ([Derive BTC (accountId ?p) ''bitcoin-1'',
         Logged ERROR (''Error in derived address provider: '' @
                       exn_to_string (Error ''fetch failed''))],
        Inr (?p\<lparr>cache := NodeCache_new\<rparr>, None))"
    by blast
  from T2 g1 d2 d3 have r2:
    "getDerivedAddress evm_offline_world demo_settings ?p 0 1 =
       ([Derive BTC (accountId ?p) ''bitcoin-1'', Derive EVM (accountId ?p) ''evm-1'',
         Logged ERROR (''Error in derived address provider: '' @
                       exn_to_string (Error ''fetch failed''))],
        Inr (?p\<lparr>cache := NodeCache_new\<rparr>, None))"
    by blast
  from T1 g2 f cfg d4 have r3:
    "getDerivedAddress_single offline_world demo_settings ?q 0 1 =
       ([Derive BTC (accountId ?q) ''bitcoin-1'',
         Logged ERROR (''Error in derived address provider: '' @
                       exn_to_string (Error ''fetch failed''))],
        Inr (?q\<lparr>cache := NodeCache_new\<rparr>, None))"
    by blast
  show ?thesis
    using g1 g2 d1 d2 d3 f cfg r1 r2 r3
    by (simp add: a same exn_to_string_def)
qed







section \<open>The exported provider\<close>

lemma walletProvider_get_unconfigured:
  assumes "falsy (getSetting runtime ''NEAR_ADDRESS'')"
  shows "walletProvider_get world runtime now later =
           ([Logged ERROR ''Error in get derived address provider: Error: NEAR_ADDRESS not configured''],
            Inr None)"
    and "walletProvider_get_single world runtime now later =
           ([Logged ERROR ''Error in get derived address provider: Error: NEAR_ADDRESS not configured''],
            Inr None)"
  using assms
  by (simp_all add: walletProvider_get_def walletProvider_get_single_def comp_defs
      exn_to_string_def)

lemma walletProvider_get_configured:
  assumes "\<not> falsy (getSetting runtime ''NEAR_ADDRESS'')"
  shows "\<exists>this' found.
           getDerivedAddress world runtime
             (DerivedAddressProvider (nullish_or (getSetting runtime ''NEAR_ADDRESS'') [])) now later =
             (fst (walletProvider_get world runtime now later), Inr (this', found))"
proof -
  from getDerivedAddress_returns
  obtain evs this' found where r:
    "getDerivedAddress world runtime
       (DerivedAddressProvider (nullish_or (getSetting runtime ''NEAR_ADDRESS'') [])) now later =
     (evs, Inr (this', found))"
    by blast
  with assms show ?thesis
    by (simp add: walletProvider_get_def comp_defs)
qed

lemma walletProvider_get_single_configured:
  assumes "\<not> falsy (getSetting runtime ''NEAR_ADDRESS'')"
  shows "\<exists>this' found.
           getDerivedAddress_single world runtime
             (DerivedAddressProvider (nullish_or (getSetting runtime ''NEAR_ADDRESS'') [])) now later =
             (fst (walletProvider_get_single world runtime now later), Inr (this', found))"
proof -
  from getDerivedAddress_single_returns
  obtain evs this' found where r:
    "getDerivedAddress_single world runtime
       (DerivedAddressProvider (nullish_or (getSetting runtime ''NEAR_ADDRESS'') [])) now later =
     (evs, Inr (this', found))"
    by blast
  with assms show ?thesis
    by (simp add: walletProvider_get_single_def comp_defs)
qed

lemma fresh_getDerivedAddress_derives:
  assumes "getDerivedAddress world runtime (DerivedAddressProvider acct) now later = (evs, r)"
  shows "\<exists>rest. evs = Derive BTC acct ''bitcoin-1'' # rest"
proof (cases "deriveAddressAndPublicKey world BTC acct ''bitcoin-1''")
  case (Inl x)
  from getDerivedAddress_btc_fails [of "DerivedAddressProvider acct" now NodeCache_new world x runtime later]
    Inl assms
  show ?thesis by (simp add: fresh_provider_misses)
next
  case b: (Inr b)
  show ?thesis
  proof (cases "deriveAddressAndPublicKey world EVM acct ''evm-1''")
    case (Inl x)
    from getDerivedAddress_evm_fails
      [of "DerivedAddressProvider acct" now NodeCache_new world b x runtime later] b Inl assms
    show ?thesis by (simp add: fresh_provider_misses)
  next
    case (Inr e)
    from getDerivedAddress_derives
      [of "DerivedAddressProvider acct" now NodeCache_new world b e runtime later] b Inr assms
    show ?thesis by (simp add: fresh_provider_misses)
  qed
qed

lemma fresh_getDerivedAddress_single_derives:
  assumes "getDerivedAddress_single world runtime (DerivedAddressProvider acct) now later = (evs, r)"
    and "BITCOIN_CONFIGS (falsy_or (getSetting runtime ''NEAR_NETWORK'') ''testnet'') = Some cfg"
  shows "evs = [Derive BTC acct ''bitcoin-1''] \<or>
         (\<exists>line. evs = [Derive BTC acct ''bitcoin-1'', Logged ERROR line])"
proof -
  have f: "falsy None" by (simp add: falsy_def)
  show ?thesis
  proof (cases "deriveAddressAndPublicKey world BTC acct ''bitcoin-1''")
    case (Inl x)
    from getDerivedAddress_single_fails
      [of "DerivedAddressProvider acct" now None NodeCache_new runtime cfg world x later]
      Inl assms f
    show ?thesis by (simp add: fresh_provider_misses)
  next
    case (Inr d)
    from getDerivedAddress_single_derives
      [of "DerivedAddressProvider acct" now None NodeCache_new runtime cfg world d later]
      Inr assms f
    show ?thesis by (simp add: fresh_provider_misses)
  qed
qed


lemma fresh_getDerivedAddress_no_hit:
  assumes "getDerivedAddress world runtime (DerivedAddressProvider acct) now later = (evs, r)"
  shows "cache_hit \<notin> set evs"
proof (cases "deriveAddressAndPublicKey world BTC acct ''bitcoin-1''")
  case (Inl x)
  from getDerivedAddress_btc_fails [of "DerivedAddressProvider acct" now NodeCache_new world x runtime later]
    Inl assms
  show ?thesis by (auto simp: fresh_provider_misses cache_hit_def)
next
  case b: (Inr b)
  show ?thesis
  proof (cases "deriveAddressAndPublicKey world EVM acct ''evm-1''")
    case (Inl x)
    from getDerivedAddress_evm_fails
      [of "DerivedAddressProvider acct" now NodeCache_new world b x runtime later] b Inl assms
    show ?thesis by (auto simp: fresh_provider_misses cache_hit_def)
  next
    case (Inr e)
    from getDerivedAddress_derives
      [of "DerivedAddressProvider acct" now NodeCache_new world b e runtime later] b Inr assms
    show ?thesis by (auto simp: fresh_provider_misses cache_hit_def)
  qed
qed

lemma fresh_getDerivedAddress_single_no_hit:
  assumes "getDerivedAddress_single world runtime (DerivedAddressProvider acct) now later = (evs, r)"
  shows "cache_hit \<notin> set evs"
proof -
  have f: "falsy None" by (simp add: falsy_def)
  show ?thesis
  proof (cases "BITCOIN_CONFIGS (falsy_or (getSetting runtime ''NEAR_NETWORK'') ''testnet'')")
    case None
    from getDerivedAddress_single_no_config
      [of "DerivedAddressProvider acct" now None NodeCache_new runtime world later] None assms f
    show ?thesis by (auto simp: fresh_provider_misses cache_hit_def)
  next
    case (Some cfg)
    from fresh_getDerivedAddress_single_derives [OF assms Some]
    show ?thesis by (auto simp: cache_hit_def)
  qed
qed

text \<open>
  Claim C4, as amended. A new provider has an empty cache. In every sequence of
  calls of the exported \<open>walletProvider.get\<close>, no call logs a cache hit. A call
  whose settings hold a non-empty \<^verbatim>\<open>NEAR_ADDRESS\<close> starts with the outside
  derivation call for Bitcoin (in the single-asset variant, when the network has
  a config). A call whose settings lack it constructs no provider and derives
  nothing: it logs the error and returns \<^verbatim>\<open>null\<close>.
\<close>

theorem walletProvider_get_never_hits_cache:
  "(\<forall>acct key. cache (DerivedAddressProvider acct :: addresses provider) key = None) \<and>
   (\<forall>acct key. cache (DerivedAddressProvider acct :: string provider) key = None) \<and>
   (\<forall>(world, runtime, now, later) \<in> set calls.
      cache_hit \<notin> set (fst (walletProvider_get world runtime now later)) \<and>
      cache_hit \<notin> set (fst (walletProvider_get_single world runtime now later)) \<and>
      (\<not> falsy (getSetting runtime ''NEAR_ADDRESS'') \<longrightarrow>
         (\<exists>rest.
            fst (walletProvider_get world runtime now later) =
              Derive BTC (nullish_or (getSetting runtime ''NEAR_ADDRESS'') []) ''bitcoin-1'' # rest)) \<and>
      (\<not> falsy (getSetting runtime ''NEAR_ADDRESS'') \<and>
       BITCOIN_CONFIGS (falsy_or (getSetting runtime ''NEAR_NETWORK'') ''testnet'') \<noteq> None \<longrightarrow>
         (\<exists>rest.
            fst (walletProvider_get_single world runtime now later) =
              Derive BTC (nullish_or (getSetting runtime ''NEAR_ADDRESS'') []) ''bitcoin-1'' # rest)) \<and>
      (falsy (getSetting runtime ''NEAR_ADDRESS'') \<longrightarrow>
         walletProvider_get world runtime now later =
           ([Logged ERROR
               ''Error in get derived address provider: Error: NEAR_ADDRESS not configured''],
            Inr None) \<and>
         walletProvider_get_single world runtime now later =
           ([Logged ERROR
               ''Error in get derived address provider: Error: NEAR_ADDRESS not configured''],
            Inr None)))"
proof (intro conjI allI ballI)
  fix acct key
  show "cache (DerivedAddressProvider acct :: addresses provider) key = None"
    by (simp add: DerivedAddressProvider_def NodeCache_new_def)
  show "cache (DerivedAddressProvider acct :: string provider) key = None"
    by (simp add: DerivedAddressProvider_def NodeCache_new_def)
next
  fix call
  assume "call \<in> set calls"
  obtain world runtime now later where call: "call = (world, runtime, now, later)"
    by (cases call) auto
  let ?acct = "nullish_or (getSetting runtime ''NEAR_ADDRESS'') []"
  have both:
    "cache_hit \<notin> set (fst (walletProvider_get world runtime now later)) \<and>
     cache_hit \<notin> set (fst (walletProvider_get_single world runtime now later)) \<and>
     (\<not> falsy (getSetting runtime ''NEAR_ADDRESS'') \<longrightarrow>
        (\<exists>rest. fst (walletProvider_get world runtime now later) =
                  Derive BTC ?acct ''bitcoin-1'' # rest)) \<and>
     (\<not> falsy (getSetting runtime ''NEAR_ADDRESS'') \<and>
      BITCOIN_CONFIGS (falsy_or (getSetting runtime ''NEAR_NETWORK'') ''testnet'') \<noteq> None \<longrightarrow>
        (\<exists>rest. fst (walletProvider_get_single world runtime now later) =
                  Derive BTC ?acct ''bitcoin-1'' # rest)) \<and>
     (falsy (getSetting runtime ''NEAR_ADDRESS'') \<longrightarrow>
        walletProvider_get world runtime now later =
          ([Logged ERROR
              ''Error in get derived address provider: Error: NEAR_ADDRESS not configured''],
           Inr None) \<and>
        walletProvider_get_single world runtime now later =
          ([Logged ERROR
              ''Error in get derived address provider: Error: NEAR_ADDRESS not configured''],
           Inr None))"
  proof (cases "falsy (getSetting runtime ''NEAR_ADDRESS'')")
    case True
    from walletProvider_get_unconfigured [OF True, of world now later]
    show ?thesis using True by (simp add: cache_hit_def)
  next
    case False
    from walletProvider_get_configured [OF False, of world now later]
    obtain p1 f1 where r1:
      "getDerivedAddress world runtime (DerivedAddressProvider ?acct) now later =
         (fst (walletProvider_get world runtime now later), Inr (p1, f1))"
      by blast
    from walletProvider_get_single_configured [OF False, of world now later]
    obtain p2 f2 where r2:
      "getDerivedAddress_single world runtime (DerivedAddressProvider ?acct) now later =
         (fst (walletProvider_get_single world runtime now later), Inr (p2, f2))"
      by blast
    have s: "BITCOIN_CONFIGS (falsy_or (getSetting runtime ''NEAR_NETWORK'') ''testnet'') \<noteq> None \<longrightarrow>
        (\<exists>rest. fst (walletProvider_get_single world runtime now later) =
                  Derive BTC ?acct ''bitcoin-1'' # rest)"
      using fresh_getDerivedAddress_single_derives [OF r2] by auto
    show ?thesis
      using False fresh_getDerivedAddress_no_hit [OF r1] fresh_getDerivedAddress_derives [OF r1]
        fresh_getDerivedAddress_single_no_hit [OF r2] s
      by simp
  qed
  then show "case call of
     (world, runtime, now, later) \<Rightarrow>
       cache_hit \<notin> set (fst (walletProvider_get world runtime now later)) \<and>
       cache_hit \<notin> set (fst (walletProvider_get_single world runtime now later)) \<and>
       (\<not> falsy (getSetting runtime ''NEAR_ADDRESS'') \<longrightarrow>
        (\<exists>rest.
            fst (walletProvider_get world runtime now later) =
            Derive BTC (nullish_or (getSetting runtime ''NEAR_ADDRESS'') []) ''bitcoin-1'' # rest)) \<and>
       (\<not> falsy (getSetting runtime ''NEAR_ADDRESS'') \<and>
        BITCOIN_CONFIGS (falsy_or (getSetting runtime ''NEAR_NETWORK'') ''testnet'') \<noteq> None \<longrightarrow>
        (\<exists>rest.
            fst (walletProvider_get_single world runtime now later) =
            Derive BTC (nullish_or (getSetting runtime ''NEAR_ADDRESS'') []) ''bitcoin-1'' # rest)) \<and>
       (falsy (getSetting runtime ''NEAR_ADDRESS'') \<longrightarrow>
        walletProvider_get world runtime now later =
        ([Logged ERROR
            ''Error in get derived address provider: Error: NEAR_ADDRESS not configured''],
         Inr None) \<and>
        walletProvider_get_single world runtime now later =
        ([Logged ERROR
            ''Error in get derived address provider: Error: NEAR_ADDRESS not configured''],
         Inr None))"
    unfolding call by simp
qed

theorem walletProvider_get_never_hits_cache_witness:
  "(demo_world, demo_settings, 2000, 3000) \<in>
     set [(demo_world, demo_settings, 0, 1000), (demo_world, demo_settings, 2000, 3000)] \<and>
   \<not> falsy (getSetting demo_settings ''NEAR_ADDRESS'') \<and>
   BITCOIN_CONFIGS (falsy_or (getSetting demo_settings ''NEAR_NETWORK'') ''testnet'') \<noteq> None \<and>
   cache_hit \<notin> set (fst (walletProvider_get demo_world demo_settings 2000 3000)) \<and>
   cache_hit \<notin> set (fst (walletProvider_get_single demo_world demo_settings 2000 3000)) \<and>
   (\<exists>rest. fst (walletProvider_get demo_world demo_settings 2000 3000) =
              Derive BTC ''alice.testnet'' ''bitcoin-1'' # rest) \<and>
   (\<exists>rest. fst (walletProvider_get_single demo_world demo_settings 2000 3000) =
              Derive BTC ''alice.testnet'' ''bitcoin-1'' # rest)"
proof -
  have m: "(demo_world, demo_settings, 2000, 3000) \<in>
     set [(demo_world, demo_settings, 0, 1000), (demo_world, demo_settings, 2000 :: int, 3000 :: int)]"
    by simp
  have a: "\<not> falsy (getSetting demo_settings ''NEAR_ADDRESS'')"
    by (simp add: falsy_def getSetting_def demo_settings_def)
  have cfg: "BITCOIN_CONFIGS (falsy_or (getSetting demo_settings ''NEAR_NETWORK'') ''testnet'') \<noteq> None"
    by (simp add: BITCOIN_CONFIGS_def falsy_or_def getSetting_def demo_settings_def)
  have n: "nullish_or (getSetting demo_settings ''NEAR_ADDRESS'') [] = ''alice.testnet''"
    by (simp add: nullish_or_def getSetting_def demo_settings_def)
  from walletProvider_get_never_hits_cache
    [where calls = "[(demo_world, demo_settings, 0, 1000), (demo_world, demo_settings, 2000, 3000)]"]
  show ?thesis using m a cfg n by simp
qed

text \<open>
  The claim as stated fails: without \<^verbatim>\<open>NEAR_ADDRESS\<close> the call makes no
  derivation call at all.
\<close>

theorem walletProvider_get_unconfigured_counterexample:
  "walletProvider_get demo_world (\<lambda>key. None) 0 1000 =
     ([Logged ERROR ''Error in get derived address provider: Error: NEAR_ADDRESS not configured''],
      Inr None)"
  by (simp add: walletProvider_get_def comp_defs exn_to_string_def falsy_def getSetting_def)

section \<open>Amount conversion\<close>

text \<open>The two conversions the specification gives as examples come out exact.\<close>

lemma conversion_examples:
  "eth_wire_value ''1.5'' = ''1500000000000000000''"
  "btc_wire_value ''0.001'' = ''100000''"
  by code_simp+

text \<open>
  Claim C1: the conversion multiplies the amount by \<open>10 ^ 18\<close> for ETH with no
  rounding error and prints an integer. The code does not: the amount passes
  through a double before and after the exact shift. For the amount
  \<^verbatim>\<open>0.123456789012345678\<close> (eighteen decimal places) the value put on the wire is
  \<open>123456789012345680\<close>, not \<open>123456789012345678\<close>; for the amount \<^verbatim>\<open>1000\<close>
  it is the text \<^verbatim>\<open>1e+21\<close>, which is not an integer string.
\<close>

theorem eth_conversion_is_rounded:
  "eth_wire_value ''0.123456789012345678'' = ''123456789012345680'' \<and>
   exact_base_units ''0.123456789012345678'' 18 = Some ''123456789012345678'' \<and>
   eth_wire_value ''1000'' = ''1e+21'' \<and>
   exact_base_units ''1000'' 18 = Some ''1000000000000000000000''"
  by code_simp

end
